theory Spec2Isabelle
  imports Main "HOL-Library.Word" "HOL-Library.AList"
begin

section \<open>Values of the platform\<close>

text \<open>
  The gateway is a Node.js program. Text is modelled as \<open>string\<close>, the list of the
  bytes of its UTF-8 form, and a \<open>Buffer\<close> as the list of its bytes, also a \<open>string\<close>.
  An exception is a value of \<open>js_error\<close> carrying the message that \<open>error.message\<close>
  reads; a function that may throw returns \<open>js_error + 'a\<close>.
\<close>

datatype js_error = Error string | TypeError string | RangeError string | SyntaxError string

fun message :: "js_error \<Rightarrow> string" where
  "message (Error m) = m"
| "message (TypeError m) = m"
| "message (RangeError m) = m"
| "message (SyntaxError m) = m"

text \<open>
  A JSON value. A number \<open>JNum m e\<close> stands for the decimal \<open>m * 10 ^ e\<close>, kept
  with \<open>m\<close> not divisible by 10 (and \<open>JNum 0 0\<close> for zero); the rounding of
  binary64 is not modelled. An object is the list of its own properties in creation order. A value
  that may be \<open>undefined\<close> is a \<open>json option\<close>, with \<open>None\<close> for \<open>undefined\<close>.
\<close>

datatype json =
    JNull
  | JBool bool
  | JNum int int
  | JStr string
  | JArr "json list"
  | JObj "(string \<times> json) list"

text \<open>
  What the program takes from its platform without defining it: the keyed hash of
  \<open>crypto.createHmac('sha256', key).update(msg).digest()\<close>, the relational operator
  \<open>a > b\<close> on two values, the arithmetic of
  \<open>parseFloat((amount * quantity).toFixed(2))\<close>, and \<open>new Date(t).toISOString()\<close>.
  Every theorem below holds for every platform.
\<close>

record platform =
  hmacSha256 :: "string \<Rightarrow> string \<Rightarrow> 256 word"
  js_gt :: "json option \<Rightarrow> json option \<Rightarrow> bool"
  js_totalPrice :: "json option \<Rightarrow> json \<Rightarrow> json"
  toISOString :: "int \<Rightarrow> string"

text \<open>\<open>process.env\<close>: a variable that is not set reads as \<open>undefined\<close>.\<close>

type_synonym environment = "string \<rightharpoonup> string"

text \<open>
  Truthiness, as \<open>!v\<close>, \<open>v && ...\<close>, \<open>v || ...\<close> and \<open>if (v)\<close> test it: \<open>undefined\<close>,
  \<open>null\<close>, \<open>false\<close>, \<open>0\<close> and the empty string are falsy.
\<close>

fun truthy :: "json option \<Rightarrow> bool" where
  "truthy None = False"
| "truthy (Some JNull) = False"
| "truthy (Some (JBool b)) = b"
| "truthy (Some (JNum m e)) = (m \<noteq> 0)"
| "truthy (Some (JStr s)) = (s \<noteq> [])"
| "truthy (Some (JArr xs)) = True"
| "truthy (Some (JObj kvs)) = True"

definition truthy_str :: "string option \<Rightarrow> bool" where
  "truthy_str v = (case v of None \<Rightarrow> False | Some s \<Rightarrow> s \<noteq> [])"

subsection \<open>Hexadecimal text and buffers\<close>

definition unhex :: "char \<Rightarrow> nat option" where
  "unhex c =
     (let n = of_char c :: nat in
      if 48 \<le> n \<and> n \<le> 57 then Some (n - 48)
      else if 97 \<le> n \<and> n \<le> 102 then Some (n - 87)
      else if 65 \<le> n \<and> n \<le> 70 then Some (n - 55)
      else None)"

text \<open>
  \<open>Buffer.from(s, 'hex')\<close> decodes pairs of hexadecimal digits and stops at the first
  pair that is not one; a trailing single character is dropped. It never throws on a
  string.
\<close>

fun Buffer_from_hex :: "string \<Rightarrow> string" where
  "Buffer_from_hex (a # b # rest) =
     (case (unhex a, unhex b) of
        (Some x, Some y) \<Rightarrow> char_of (16 * x + y) # Buffer_from_hex rest
      | _ \<Rightarrow> [])"
| "Buffer_from_hex _ = []"

definition hexdigit :: "nat \<Rightarrow> char" where
  "hexdigit n = ''0123456789abcdef'' ! (n mod 16)"

text \<open>
  The digest of HMAC-SHA256 is 256 bits; \<open>digest('hex')\<close> writes it as 64 lowercase
  hexadecimal digits, most significant first.
\<close>

definition digest_hex :: "256 word \<Rightarrow> string" where
  "digest_hex w = map (\<lambda>i. hexdigit (nat (uint w div 16 ^ (63 - i) mod 16))) [0..<64]"

text \<open>
  \<open>crypto.timingSafeEqual(a, b)\<close> throws a RangeError when the two buffers differ in
  length, and compares them otherwise.
\<close>

definition timingSafeEqual :: "string \<Rightarrow> string \<Rightarrow> js_error + bool" where
  "timingSafeEqual a b =
     (if length a \<noteq> length b
      then Inl (RangeError ''Input buffers must have the same byte length'')
      else Inr (a = b))"

subsection \<open>Numbers as text\<close>

text \<open>The decimal digits of an integer that is not negative.\<close>

function show_digits :: "int \<Rightarrow> string" where
  "show_digits i =
     (if i < 10 then [char_of (48 + i)] else show_digits (i div 10) @ [char_of (48 + i mod 10)])"
  by pat_completeness auto
termination
  by (relation "measure nat") auto

declare show_digits.simps [simp del]

definition show_nat :: "nat \<Rightarrow> string" where
  "show_nat n = show_digits (int n)"

definition show_int :: "int \<Rightarrow> string" where
  "show_int i = (if i < 0 then ''-'' @ show_digits (- i) else show_digits i)"

function normalize_dec :: "int \<Rightarrow> int \<Rightarrow> int \<times> int" where
  "normalize_dec m e =
     (if m = 0 then (0, 0)
      else if m mod 10 = 0 then normalize_dec (m div 10) (e + 1)
      else (m, e))"
  by pat_completeness auto
termination
  by (relation "measure (\<lambda>(m, e). nat \<bar>m\<bar>)") auto

declare normalize_dec.simps [simp del]

definition Number_toString :: "int \<Rightarrow> int \<Rightarrow> string" where
  "Number_toString m0 e0 =
     (let (m, e) = normalize_dec m0 e0;
          ds = show_digits \<bar>m\<bar>;
          k = int (length ds);
          n = k + e;
          sign = (if m < 0 then ''-'' else '''')
      in if m = 0 then ''0''
         else if k \<le> n \<and> n \<le> 21 then sign @ ds @ replicate (nat (n - k)) CHR ''0''
         else if 0 < n \<and> n \<le> 21 then sign @ take (nat n) ds @ ''.'' @ drop (nat n) ds
         else if -6 < n \<and> n \<le> 0 then sign @ ''0.'' @ replicate (nat (- n)) CHR ''0'' @ ds
         else sign @ (if k = 1 then ds else take 1 ds @ ''.'' @ drop 1 ds)
                @ ''e'' @ (if n - 1 < 0 then ''-'' else ''+'') @ show_digits \<bar>n - 1\<bar>)"


subsection \<open>UTF-8\<close>

definition utf8_encode :: "nat \<Rightarrow> string" where
  "utf8_encode cp =
     (if cp < 0x80 then [char_of cp]
      else if cp < 0x800 then [char_of (0xC0 + cp div 64), char_of (0x80 + cp mod 64)]
      else if cp < 0x10000 then
        [char_of (0xE0 + cp div 4096), char_of (0x80 + cp div 64 mod 64), char_of (0x80 + cp mod 64)]
      else
        [char_of (0xF0 + cp div 262144), char_of (0x80 + cp div 4096 mod 64),
         char_of (0x80 + cp div 64 mod 64), char_of (0x80 + cp mod 64)])"

definition replacement_character :: string where
  "replacement_character = [char_of (0xEF :: nat), char_of (0xBF :: nat), char_of (0xBD :: nat)]"

fun utf8_decoder :: "nat \<Rightarrow> nat \<Rightarrow> nat \<Rightarrow> string \<Rightarrow> string \<Rightarrow> string" where
  "utf8_decoder needed lo hi acc [] = (if needed = 0 then [] else replacement_character)"
| "utf8_decoder needed lo hi acc (b # bs) =
     (let n = of_char b :: nat in
      if needed = 0 then
        if n < 0x80 then b # utf8_decoder 0 0x80 0xBF [] bs
        else if 0xC2 \<le> n \<and> n \<le> 0xDF then utf8_decoder 1 0x80 0xBF [b] bs
        else if 0xE0 \<le> n \<and> n \<le> 0xEF then
          utf8_decoder 2 (if n = 0xE0 then 0xA0 else 0x80) (if n = 0xED then 0x9F else 0xBF) [b] bs
        else if 0xF0 \<le> n \<and> n \<le> 0xF4 then
          utf8_decoder 3 (if n = 0xF0 then 0x90 else 0x80) (if n = 0xF4 then 0x8F else 0xBF) [b] bs
        else replacement_character @ utf8_decoder 0 0x80 0xBF [] bs
      else if n < lo \<or> hi < n then replacement_character @ utf8_decoder 0 0x80 0xBF [] (b # bs)
      else if needed = 1 then acc @ b # utf8_decoder 0 0x80 0xBF [] bs
      else utf8_decoder (needed - 1) 0x80 0xBF (acc @ [b]) bs)"

definition toString_utf8 :: "string \<Rightarrow> string" where
  "toString_utf8 buf = utf8_decoder 0 0x80 0xBF [] buf"


subsection \<open>JSON.stringify\<close>

definition hex4 :: "nat \<Rightarrow> string" where
  "hex4 n = [hexdigit (n div 4096), hexdigit (n div 256), hexdigit (n div 16), hexdigit n]"

definition escape_char :: "char \<Rightarrow> string" where
  "escape_char c =
     (let n = of_char c :: nat in
      if n = 0x22 then [CHR 0x5C, CHR 0x22]
      else if n = 0x5C then [CHR 0x5C, CHR 0x5C]
      else if n = 0x08 then [CHR 0x5C, CHR ''b'']
      else if n = 0x0C then [CHR 0x5C, CHR ''f'']
      else if n = 0x0A then [CHR 0x5C, CHR ''n'']
      else if n = 0x0D then [CHR 0x5C, CHR ''r'']
      else if n = 0x09 then [CHR 0x5C, CHR ''t'']
      else if n < 0x20 then [CHR 0x5C, CHR ''u''] @ hex4 n
      else [c])"

fun quote_body :: "string \<Rightarrow> string" where
  "quote_body [] = []"
| "quote_body (c # cs) =
     (if of_char c = (0xED :: nat) \<and> length cs \<ge> 2 \<and> (0xA0 :: nat) \<le> of_char (hd cs)
      then [CHR 0x5C, CHR ''u'']
             @ hex4 (0xD000 + (of_char (hd cs) - 0x80) * 64 + (of_char (hd (tl cs)) - 0x80))
             @ quote_body (drop 2 cs)
      else escape_char c @ quote_body cs)"

definition quote :: "string \<Rightarrow> string" where
  "quote s = [CHR 0x22] @ quote_body s @ [CHR 0x22]"

fun JSON_stringify :: "json \<Rightarrow> string"
  and stringify_elements :: "json list \<Rightarrow> string"
  and stringify_members :: "(string \<times> json) list \<Rightarrow> string" where
  "JSON_stringify JNull = ''null''"
| "JSON_stringify (JBool b) = (if b then ''true'' else ''false'')"
| "JSON_stringify (JNum m e) = Number_toString m e"
| "JSON_stringify (JStr s) = quote s"
| "JSON_stringify (JArr xs) = ''['' @ stringify_elements xs @ '']''"
| "JSON_stringify (JObj kvs) = ''{'' @ stringify_members kvs @ ''}''"
| "stringify_elements [] = []"
| "stringify_elements (x # xs) =
     JSON_stringify x @ (if xs = [] then [] else '','' @ stringify_elements xs)"
| "stringify_members [] = []"
| "stringify_members (kv # kvs) =
     quote (fst kv) @ '':'' @ JSON_stringify (snd kv)
       @ (if kvs = [] then [] else '','' @ stringify_members kvs)"

subsection \<open>JSON.parse\<close>

definition is_ws :: "char \<Rightarrow> bool" where
  "is_ws c = (c = CHR '' '' \<or> c = CHR 0x09 \<or> c = CHR 0x0A \<or> c = CHR 0x0D)"

definition skip_ws :: "string \<Rightarrow> string" where
  "skip_ws s = dropWhile is_ws s"

definition is_digit :: "char \<Rightarrow> bool" where
  "is_digit c = (48 \<le> (of_char c :: nat) \<and> (of_char c :: nat) \<le> 57)"

definition int_of_digits :: "string \<Rightarrow> int" where
  "int_of_digits ds = foldl (\<lambda>a c. 10 * a + (of_char c - 48)) 0 ds"

definition unhex4 :: "string \<Rightarrow> nat option" where
  "unhex4 xs =
     (case map unhex xs of
        [Some a, Some b, Some c, Some d] \<Rightarrow> Some (((a * 16 + b) * 16 + c) * 16 + d)
      | _ \<Rightarrow> None)"

definition simple_escape :: "char \<Rightarrow> char option" where
  "simple_escape e =
     (if e = CHR 0x22 then Some (CHR 0x22)
      else if e = CHR 0x5C then Some (CHR 0x5C)
      else if e = CHR ''/'' then Some (CHR ''/'')
      else if e = CHR ''b'' then Some (CHR 0x08)
      else if e = CHR ''f'' then Some (CHR 0x0C)
      else if e = CHR ''n'' then Some (CHR 0x0A)
      else if e = CHR ''r'' then Some (CHR 0x0D)
      else if e = CHR ''t'' then Some (CHR 0x09)
      else None)"

definition low_surrogate_escape :: "nat \<Rightarrow> string \<Rightarrow> nat option" where
  "low_surrogate_escape cu s =
     (if 0xD800 \<le> cu \<and> cu < 0xDC00 \<and> take 2 s = [CHR 0x5C, CHR ''u'']
      then (case unhex4 (take 4 (drop 2 s)) of
              Some lo \<Rightarrow>
                if 0xDC00 \<le> lo \<and> lo < 0xE000
                then Some (0x10000 + (cu - 0xD800) * 1024 + (lo - 0xDC00))
                else None
            | None \<Rightarrow> None)
      else None)"

definition prepend :: "string \<Rightarrow> (string \<times> string) option \<Rightarrow> (string \<times> string) option" where
  "prepend p r = map_option (\<lambda>(s, rest). (p @ s, rest)) r"

fun parse_string_body :: "string \<Rightarrow> (string \<times> string) option" where
  "parse_string_body [] = None"
| "parse_string_body (c # cs) =
     (if c = CHR 0x22 then Some ([], cs)
      else if c = CHR 0x5C then
        (case cs of
           [] \<Rightarrow> None
         | e # r \<Rightarrow>
             if e = CHR ''u'' then
               (case unhex4 (take 4 r) of
                  None \<Rightarrow> None
                | Some cu \<Rightarrow>
                    (case low_surrogate_escape cu (drop 4 r) of
                       Some cp \<Rightarrow> prepend (utf8_encode cp) (parse_string_body (drop 10 r))
                     | None \<Rightarrow> prepend (utf8_encode cu) (parse_string_body (drop 4 r))))
             else
               (case simple_escape e of
                  None \<Rightarrow> None
                | Some ch \<Rightarrow> prepend [ch] (parse_string_body r)))
      else if (of_char c :: nat) < 0x20 then None
      else prepend [c] (parse_string_body cs))"

definition parse_number :: "string \<Rightarrow> (json \<times> string) option" where
  "parse_number s =
     (let neg = (take 1 s = ''-'');
          s1 = (if neg then drop 1 s else s);
          ip = takeWhile is_digit s1;
          s2 = dropWhile is_digit s1;
          has_frac = (take 1 s2 = ''.'');
          fp = (if has_frac then takeWhile is_digit (drop 1 s2) else []);
          s3 = (if has_frac then dropWhile is_digit (drop 1 s2) else s2);
          has_exp = (take 1 s3 = ''e'' \<or> take 1 s3 = ''E'');
          s4 = (if has_exp then drop 1 s3 else s3);
          eneg = (has_exp \<and> take 1 s4 = ''-'');
          s5 = (if has_exp \<and> (take 1 s4 = ''-'' \<or> take 1 s4 = ''+'') then drop 1 s4 else s4);
          ep = (if has_exp then takeWhile is_digit s5 else []);
          s6 = (if has_exp then dropWhile is_digit s5 else s3);
          m = int_of_digits (ip @ fp);
          ex = int_of_digits ep
      in if ip = [] \<or> (length ip > 1 \<and> hd ip = CHR ''0'') \<or> (has_frac \<and> fp = [])
            \<or> (has_exp \<and> ep = [])
         then None
         else (case normalize_dec (if neg then - m else m)
                      ((if eneg then - ex else ex) - int (length fp)) of
                 (m', e') \<Rightarrow> Some (JNum m' e', s6)))"

definition parse_literal :: "string \<Rightarrow> json \<Rightarrow> string \<Rightarrow> (json \<times> string) option" where
  "parse_literal lit v s =
     (if take (length lit) s = lit then Some (v, drop (length lit) s) else None)"

fun parse_value :: "nat \<Rightarrow> string \<Rightarrow> (json \<times> string) option"
  and parse_elements :: "nat \<Rightarrow> json list \<Rightarrow> string \<Rightarrow> (json \<times> string) option"
  and parse_members :: "nat \<Rightarrow> (string \<times> json) list \<Rightarrow> string \<Rightarrow> (json \<times> string) option" where
  "parse_value 0 s = None"
| "parse_value (Suc n) s =
     (case skip_ws s of
        [] \<Rightarrow> None
      | c # rest \<Rightarrow>
          if c = CHR ''{'' then
            (case skip_ws rest of
               [] \<Rightarrow> None
             | d # r \<Rightarrow> if d = CHR ''}'' then Some (JObj [], r) else parse_members n [] rest)
          else if c = CHR ''['' then
            (case skip_ws rest of
               [] \<Rightarrow> None
             | d # r \<Rightarrow> if d = CHR '']'' then Some (JArr [], r) else parse_elements n [] rest)
          else if c = CHR 0x22 then
            map_option (\<lambda>(str, r). (JStr str, r)) (parse_string_body rest)
          else if c = CHR ''t'' then parse_literal ''true'' (JBool True) (c # rest)
          else if c = CHR ''f'' then parse_literal ''false'' (JBool False) (c # rest)
          else if c = CHR ''n'' then parse_literal ''null'' JNull (c # rest)
          else if c = CHR ''-'' \<or> is_digit c then parse_number (c # rest)
          else None)"
| "parse_elements 0 acc s = None"
| "parse_elements (Suc n) acc s =
     (case parse_value n s of
        None \<Rightarrow> None
      | Some (v, r) \<Rightarrow>
          (case skip_ws r of
             [] \<Rightarrow> None
           | d # r' \<Rightarrow>
               if d = CHR '','' then parse_elements n (acc @ [v]) r'
               else if d = CHR '']'' then Some (JArr (acc @ [v]), r')
               else None))"
| "parse_members 0 acc s = None"
| "parse_members (Suc n) acc s =
     (case skip_ws s of
        [] \<Rightarrow> None
      | q # r \<Rightarrow>
          if q \<noteq> CHR 0x22 then None
          else
            (case parse_string_body r of
               None \<Rightarrow> None
             | Some (k, r1) \<Rightarrow>
                 (case skip_ws r1 of
                    [] \<Rightarrow> None
                  | colon # r2 \<Rightarrow>
                      if colon \<noteq> CHR '':'' then None
                      else
                        (case parse_value n r2 of
                           None \<Rightarrow> None
                         | Some (v, r3) \<Rightarrow>
                             (case skip_ws r3 of
                                [] \<Rightarrow> None
                              | d # r4 \<Rightarrow>
                                  if d = CHR '','' then parse_members n (AList.update k v acc) r4
                                  else if d = CHR ''}'' then Some (JObj (AList.update k v acc), r4)
                                  else None)))))"

definition JSON_parse :: "string \<Rightarrow> js_error + json" where
  "JSON_parse text =
     (case parse_value (Suc (length text)) text of
        None \<Rightarrow> Inl (SyntaxError ''Unexpected token in JSON'')
      | Some (v, rest) \<Rightarrow>
          if skip_ws rest = [] then Inr v
          else Inl (SyntaxError ''Unexpected token in JSON''))"

subsection \<open>Base64\<close>





definition unbase64 :: "char \<Rightarrow> nat option" where
  "unbase64 c =
     (let n = of_char c :: nat in
      if 65 \<le> n \<and> n \<le> 90 then Some (n - 65)
      else if 97 \<le> n \<and> n \<le> 122 then Some (n - 71)
      else if 48 \<le> n \<and> n \<le> 57 then Some (n + 4)
      else if c = CHR ''+'' \<or> c = CHR ''-'' then Some 62
      else if c = CHR ''/'' \<or> c = CHR ''_'' then Some 63
      else None)"

fun base64_sextets :: "string \<Rightarrow> nat list" where
  "base64_sextets [] = []"
| "base64_sextets (c # cs) =
     (if c = CHR ''='' then []
      else (case unbase64 c of
              Some v \<Rightarrow> v # base64_sextets cs
            | None \<Rightarrow> base64_sextets cs))"

fun bytes_of_sextets :: "nat list \<Rightarrow> string" where
  "bytes_of_sextets (a # b # c # d # rest) =
     [char_of (a * 4 + b div 16), char_of (b mod 16 * 16 + c div 4), char_of (c mod 4 * 64 + d)]
       @ bytes_of_sextets rest"
| "bytes_of_sextets [a, b, c] = [char_of (a * 4 + b div 16), char_of (b mod 16 * 16 + c div 4)]"
| "bytes_of_sextets [a, b] = [char_of (a * 4 + b div 16)]"
| "bytes_of_sextets _ = []"

definition Buffer_from_base64 :: "string \<Rightarrow> string" where
  "Buffer_from_base64 s = bytes_of_sextets (base64_sextets s)"

definition js_length :: "string \<Rightarrow> nat" where
  "js_length s =
     length (filter (\<lambda>c. (of_char c :: nat) < 0x80 \<or> 0xC0 \<le> (of_char c :: nat)) s)
       + length (filter (\<lambda>c. 0xF0 \<le> (of_char c :: nat)) s)"

definition replace_all :: "char \<Rightarrow> string \<Rightarrow> string \<Rightarrow> string" where
  "replace_all c r s = concat (map (\<lambda>x. if x = c then r else [x]) s)"

section \<open>Offer codec\<close>


definition base64urlDecode :: "string \<Rightarrow> string" where
  "base64urlDecode str0 =
     (let str1 = str0 @ replicate ((4 - js_length str0 mod 4) mod 4) CHR ''='';
          str2 = replace_all CHR ''_'' ''/'' (replace_all CHR ''-'' ''+'' str1)
      in Buffer_from_base64 str2)"

definition decodeProduct :: "string \<Rightarrow> js_error + json" where
  "decodeProduct productBlob =
     (case JSON_parse (toString_utf8 (base64urlDecode productBlob)) of
        Inl e \<Rightarrow> Inl (Error ''Invalid product blob format'')
      | Inr v \<Rightarrow> Inr v)"





section \<open>Offer authenticator\<close>

text \<open>
  \<open>crypto.createHmac('sha256', key).update(msg).digest('hex')\<close>. The key is read from
  \<open>process.env\<close>; \<open>createHmac\<close> throws a TypeError when it is \<open>undefined\<close>.
\<close>

definition createHmac_sha256_hex :: "platform \<Rightarrow> string option \<Rightarrow> string \<Rightarrow> js_error + string" where
  "createHmac_sha256_hex P key msg =
     (case key of
        None \<Rightarrow> Inl (TypeError ''The \"key\" argument must be of type string or an instance of ArrayBuffer, Buffer, TypedArray, DataView, KeyObject, or CryptoKey. Received undefined'')
      | Some k \<Rightarrow> Inr (digest_hex (hmacSha256 P k msg)))"

definition verifyProductSignature :: "platform \<Rightarrow> environment \<Rightarrow> string \<Rightarrow> string \<Rightarrow> js_error + bool" where
  "verifyProductSignature P env productBlob signature =
     (case createHmac_sha256_hex P (env ''PRODUCT_SIGNING_SECRET'') productBlob of
        Inl e \<Rightarrow> Inl e
      | Inr expectedSignature \<Rightarrow>
          timingSafeEqual (Buffer_from_hex signature) (Buffer_from_hex expectedSignature))"




section \<open>Idempotency ledger\<close>

text \<open>
  \<open>idempotencyCache\<close> is a \<open>Map\<close> from the idempotency key to the stored response and
  the time of storing, in milliseconds. It is modelled as the list of its entries in
  insertion order: \<open>get\<close> is \<open>map_of\<close>, \<open>set\<close> is \<open>AList.update\<close> and \<open>delete\<close>
  is \<open>AList.delete\<close>. \<open>Date.now()\<close> is an argument.
\<close>

record idempotency_entry =
  result :: json
  timestamp :: int

type_synonym idempotency_cache = "(string \<times> idempotency_entry) list"

definition checkIdempotency :: "int \<Rightarrow> idempotency_cache \<Rightarrow> string \<Rightarrow> json option \<times> idempotency_cache" where
  "checkIdempotency now cache key =
     (case map_of cache key of
        Some existing \<Rightarrow>
          if now - timestamp existing < 3600000 then (Some (result existing), cache)
          else (None, AList.delete key cache)
      | None \<Rightarrow> (None, cache))"

definition storeIdempotencyResult :: "int \<Rightarrow> idempotency_cache \<Rightarrow> string \<Rightarrow> json \<Rightarrow> idempotency_cache" where
  "storeIdempotencyResult now cache key res =
     AList.update key \<lparr>result = res, timestamp = now\<rparr> cache"

text \<open>
  The callback of \<open>setInterval(..., 1800000)\<close>: one pass over the entries, deleting
  those stored 3600000 ms ago or earlier.
\<close>

definition reaper_step :: "int \<Rightarrow> string \<times> idempotency_entry \<Rightarrow> idempotency_cache \<Rightarrow> idempotency_cache" where
  "reaper_step now kv cache =
     (if now - timestamp (snd kv) \<ge> 3600000 then AList.delete (fst kv) cache else cache)"

definition reaper :: "int \<Rightarrow> idempotency_cache \<Rightarrow> idempotency_cache" where
  "reaper now cache = fold (reaper_step now) cache cache"

section \<open>Startup configuration\<close>

text \<open>
  \<open>validateEnvironment\<close> of server.js; \<open>process.exit(1)\<close> is the result \<open>Inl 1\<close>.
\<close>

definition validateEnvironment :: "environment \<Rightarrow> nat + unit" where
  "validateEnvironment env =
     (let required = [''SERP_API_KEY'', ''PRODUCT_SIGNING_SECRET''];
          missing = filter (\<lambda>key. \<not> truthy_str (env key)) required
      in if length missing > 0 then Inl 1 else Inr ())"

text \<open>\<open>getExactPaymentConfig\<close> and \<open>assertExactSchemeOnly\<close> of src/payments/exact.js.\<close>

record exact_config =
  scheme :: string
  asset :: string
  chain :: string
  recipient :: string
  facilitatorUrl :: string

definition or_default :: "string option \<Rightarrow> string \<Rightarrow> string" where
  "or_default v d = (case v of None \<Rightarrow> d | Some s \<Rightarrow> if s = [] then d else s)"

definition getExactPaymentConfig :: "environment \<Rightarrow> js_error + exact_config" where
  "getExactPaymentConfig env =
     (if \<not> truthy_str (env ''EXACT_RECIPIENT'')
      then Inl (Error ''EXACT_RECIPIENT environment variable is required for exact payment scheme'')
      else if \<not> truthy_str (env ''FACILITATOR_URL'')
      then Inl (Error ''FACILITATOR_URL environment variable is required for exact payment scheme'')
      else Inr \<lparr>scheme = ''exact'',
                asset = or_default (env ''EXACT_ASSET'') ''USDC'',
                chain = or_default (env ''EXACT_CHAIN'') ''solana'',
                recipient = the (env ''EXACT_RECIPIENT''),
                facilitatorUrl = the (env ''FACILITATOR_URL'')\<rparr>)"

definition assertExactSchemeOnly :: "environment \<Rightarrow> js_error + unit" where
  "assertExactSchemeOnly env =
     (case getExactPaymentConfig env of
        Inl e \<Rightarrow> Inl e
      | Inr config \<Rightarrow>
          if scheme config \<noteq> ''exact''
          then Inl (Error (''Invalid payment scheme configuration: expected \"exact\", got \"''
                           @ scheme config @ ''\"''))
          else Inr ())"

section \<open>Catalog validator\<close>

text \<open>
  The catalog is the content of config/product-catalog.json: a default identifier and
  the entries. \<open>loadProductCatalog\<close> takes what reading and parsing that file gives,
  \<open>None\<close> when either throws, and then falls back to the built-in catalog.
\<close>

record catalog_entry =
  asin :: string
  name :: string
  sku :: string
  price :: json

record product_catalog =
  defaultASIN :: string
  products :: "catalog_entry list"

definition fallback_catalog :: product_catalog where
  "fallback_catalog =
     \<lparr>defaultASIN = ''B08C7KG5LP'',
      products =
        [\<lparr>asin = ''B08C7KG5LP'', name = ''Apple AirPods (3rd Generation)'',
          sku = ''B08C7KG5LP'', price = JNum 16999 (-2)\<rparr>,
         \<lparr>asin = ''B01MTB55WH'', name = ''Apple AirPods (3rd Gen - Alt Listing)'',
          sku = ''B01MTB55WH'', price = JNum 16999 (-2)\<rparr>]\<rparr>"

definition loadProductCatalog :: "product_catalog option \<Rightarrow> product_catalog" where
  "loadProductCatalog file = (case file of Some c \<Rightarrow> c | None \<Rightarrow> fallback_catalog)"

text \<open>
  The object \<open>validateAsin\<close> returns. \<open>v_asin\<close> is the default identifier or the value
  that was validated; \<open>v_product\<close> is \<open>None\<close> where the source has \<open>null\<close> or the
  \<open>undefined\<close> of a \<open>find\<close> without a match. The function also returns the global
  \<open>productCatalog\<close>, which it loads when it is still \<open>null\<close>.
\<close>

record asin_validation =
  valid :: bool
  v_asin :: "json option"
  v_product :: "catalog_entry option"
  reason :: string
  suggestions :: "string list option"

definition validateAsin ::
  "product_catalog option \<Rightarrow> product_catalog option \<Rightarrow> json option
     \<Rightarrow> asin_validation \<times> product_catalog option" where
  "validateAsin file productCatalog a =
     (let cat = (case productCatalog of None \<Rightarrow> loadProductCatalog file | Some c \<Rightarrow> c) in
      if \<not> truthy a then
        (\<lparr>valid = True,
          v_asin = Some (JStr (defaultASIN cat)),
          v_product = find (\<lambda>p. asin p = defaultASIN cat) (products cat),
          reason = ''used_default'',
          suggestions = None\<rparr>, Some cat)
      else
        (case find (\<lambda>p. Some (JStr (asin p)) = a) (products cat) of
           Some product \<Rightarrow>
             (\<lparr>valid = True, v_asin = a, v_product = Some product,
               reason = ''found_in_catalog'', suggestions = None\<rparr>, Some cat)
         | None \<Rightarrow>
             (\<lparr>valid = False, v_asin = a, v_product = None,
               reason = ''not_in_catalog'',
               suggestions = Some (take 3 (map asin (products cat)))\<rparr>, Some cat)))"

section \<open>Values in the purchase handler\<close>

text \<open>
  Reading a property: of \<open>undefined\<close> or \<open>null\<close> it throws a TypeError; of an object it
  gives the own property or \<open>undefined\<close>; of any other value it gives \<open>undefined\<close>, as
  none of the names the handler reads is a property of an array, a string, a number or
  a boolean. \<open>own v k\<close> is the read \<open>v.k\<close> where \<open>v\<close> is known to be neither.
\<close>

definition quoted :: "string \<Rightarrow> string" where
  "quoted k = [CHR 0x27] @ k @ [CHR 0x27]"

definition own :: "json \<Rightarrow> string \<Rightarrow> json option" where
  "own v k = (case v of JObj kvs \<Rightarrow> map_of kvs k | _ \<Rightarrow> None)"

definition get_prop :: "json option \<Rightarrow> string \<Rightarrow> js_error + json option" where
  "get_prop v k =
     (case v of
        None \<Rightarrow>
          Inl (TypeError (''Cannot read properties of undefined (reading '' @ quoted k @ '')''))
      | Some JNull \<Rightarrow>
          Inl (TypeError (''Cannot read properties of null (reading '' @ quoted k @ '')''))
      | Some x \<Rightarrow> Inr (own x k))"

text \<open>
  An object literal: a property whose value is \<open>undefined\<close> is not written when the
  object is serialised, so it is left out of the value.
\<close>

definition obj :: "(string \<times> json option) list \<Rightarrow> json" where
  "obj kvs = JObj (List.map_filter (\<lambda>kv. map_option (Pair (fst kv)) (snd kv)) kvs)"

text \<open>The conversion to text of a template literal, \<open>`${v}`\<close>.\<close>

fun ToString :: "json option \<Rightarrow> string"
  and join_elements :: "json list \<Rightarrow> string" where
  "ToString None = ''undefined''"
| "ToString (Some JNull) = ''null''"
| "ToString (Some (JBool b)) = (if b then ''true'' else ''false'')"
| "ToString (Some (JNum m e)) = Number_toString m e"
| "ToString (Some (JStr s)) = s"
| "ToString (Some (JArr xs)) = join_elements xs"
| "ToString (Some (JObj kvs)) = ''[object Object]''"
| "join_elements [] = []"
| "join_elements (x # xs) =
     (if x = JNull then [] else ToString (Some x))
       @ (if xs = [] then [] else '','' @ join_elements xs)"

text \<open>\<open>s.includes(sub)\<close> on text.\<close>

fun str_includes :: "string \<Rightarrow> string \<Rightarrow> bool" where
  "str_includes [] sub = (sub = [])"
| "str_includes (c # cs) sub = (take (length sub) (c # cs) = sub \<or> str_includes cs sub)"

text \<open>\<open>a || b\<close> on values.\<close>

definition js_or :: "json option \<Rightarrow> json option \<Rightarrow> json option" where
  "js_or a b = (if truthy a then a else b)"

section \<open>The fulfillment collaborator\<close>

text \<open>
  What \<open>fetch\<close> does with the order request is an input of the model: it fails, or it
  gives a response with a status, a status text and a body. \<open>callCrossmintAPI\<close> throws
  for a failed fetch, for a status outside 200 to 299, and for a body that is not JSON.
\<close>

datatype fetch_result = FetchFailed js_error | HttpResponse nat string string

definition callCrossmintAPI :: "fetch_result \<Rightarrow> js_error + json" where
  "callCrossmintAPI r =
     (case r of
        FetchFailed e \<Rightarrow> Inl e
      | HttpResponse st statusText errorBody \<Rightarrow>
          if \<not> (200 \<le> st \<and> st \<le> 299)
          then Inl (Error (''Crossmint API error: '' @ show_nat st @ '' '' @ statusText
                           @ '' - '' @ errorBody))
          else JSON_parse errorBody)"

definition Object_keys :: "json \<Rightarrow> string list" where
  "Object_keys data =
     (case data of
        JObj kvs \<Rightarrow> map fst kvs
      | JArr xs \<Rightarrow> map show_nat [0..<length xs]
      | _ \<Rightarrow> [])"

definition is_object :: "json \<Rightarrow> bool" where
  "is_object data = (case data of JNull \<Rightarrow> True | JArr xs \<Rightarrow> True | JObj kvs \<Rightarrow> True | _ \<Rightarrow> False)"

definition validateCrossmintOrderResponse :: "json \<Rightarrow> js_error + json \<times> json" where
  "validateCrossmintOrderResponse data =
     (if \<not> truthy (Some data) \<or> \<not> is_object data
      then Inl (Error ''Invalid Crossmint response: not an object'')
      else
        (let orderId = js_or (js_or (own data ''orderId'') (own data ''id'')) (own data ''order_id'')
         in if \<not> truthy orderId
            then Inl (Error (''Invalid Crossmint response: missing order identifier. Response structure: ''
                             @ JSON_stringify (JArr (map JStr (Object_keys data)))))
            else Inr (the orderId, data)))"

text \<open>\<open>toAmazonLocator\<close>, applied to the locator object.\<close>

definition toAmazonLocator :: "json \<Rightarrow> js_error + string" where
  "toAmazonLocator p =
     (if truthy (own p ''asin'') then Inr (''amazon:'' @ ToString (own p ''asin''))
      else if truthy (own p ''url'') then Inr (''amazon:'' @ ToString (own p ''url''))
      else Inl (Error ''No ASIN or URL for productLocator''))"

section \<open>Purchase orchestrator\<close>

text \<open>
  The body of \<open>POST /purchase\<close>. The two credentials and the idempotency key are strings
  when they are present; the other fields are any JSON value.
\<close>

record purchase_request =
  productBlob :: "string option"
  signature :: "string option"
  quantity :: "json option"
  shipping :: "json option"
  idempotencyKey :: "string option"
  priceExpectation :: "json option"

text \<open>
  What one run of the handler takes from outside: the clock while it runs up to the call
  of the collaborator (\<open>t_received\<close>) and after the call returns (\<open>t_completed\<close>), the
  two random suffixes of \<open>requestId\<close> and \<open>paymentId\<close>, and what \<open>fetch\<close> does.
\<close>

record request_context =
  t_received :: int
  random_request :: string
  random_payment :: string
  crossmint :: fetch_result
  t_completed :: int

record http_response =
  status :: nat
  body :: json

text \<open>
  The state the handler shares between requests. At startup \<open>loadProductCatalog()\<close> runs
  before the statement \<open>var productCatalog = null\<close>, which resets the variable, so the
  server starts to listen with no catalog loaded and \<open>validateAsin\<close> loads it.
\<close>

record server_state =
  productCatalog :: "product_catalog option"
  idempotencyCache :: idempotency_cache
  pendingPayments :: "(string \<times> json) list"

definition startup :: "environment \<Rightarrow> nat + server_state" where
  "startup env =
     (case validateEnvironment env of
        Inl code \<Rightarrow> Inl code
      | Inr u \<Rightarrow> Inr \<lparr>productCatalog = None, idempotencyCache = [], pendingPayments = []\<rparr>)"

definition createErrorResponse ::
  "platform \<Rightarrow> int \<Rightarrow> string \<Rightarrow> string \<Rightarrow> string \<Rightarrow> (string \<times> json) list \<Rightarrow> json" where
  "createErrorResponse P now stage code msg details =
     JObj [(''ok'', JBool False),
           (''stage'', JStr stage),
           (''code'', JStr code),
           (''message'', JStr msg),
           (''details'', JObj (AList.update ''timestamp'' (JStr (toISOString P now)) details))]"

definition requestId_of :: "request_context \<Rightarrow> string" where
  "requestId_of ctx = ''req_'' @ show_int (t_received ctx) @ ''_'' @ random_request ctx"

definition paymentId_of :: "request_context \<Rightarrow> string" where
  "paymentId_of ctx = ''payment_'' @ show_int (t_received ctx) @ ''_'' @ random_payment ctx"

text \<open>
  A part of the \<open>try\<close> block ends in one of three ways: the handler responds and
  returns, an exception goes to the \<open>catch\<close> block, or the run goes on with a value.
\<close>

datatype 'a attempt = Respond nat json | Raise js_error | Proceed 'a

text \<open>Steps 1 and 2: the signature, then the token.\<close>

definition verify_and_decode :: "platform \<Rightarrow> environment \<Rightarrow> purchase_request \<Rightarrow> request_context \<Rightarrow> json attempt" where
  "verify_and_decode P env req ctx =
     (case verifyProductSignature P env (the (productBlob req)) (the (signature req)) of
        Inl e \<Rightarrow> Raise e
      | Inr ok \<Rightarrow>
          if \<not> ok then
            Respond 400 (createErrorResponse P (t_received ctx) ''auth'' ''INVALID_SIGNATURE''
              ''Product signature verification failed'' [(''requestId'', JStr (requestId_of ctx))])
          else
            (case decodeProduct (the (productBlob req)) of
               Inl e \<Rightarrow>
                 Respond 400 (createErrorResponse P (t_received ctx) ''validation''
                   ''INVALID_PRODUCT_BLOB'' (''Failed to decode product data: '' @ message e)
                   [(''requestId'', JStr (requestId_of ctx))])
             | Inr product \<Rightarrow> Proceed product))"

text \<open>
  Step 4: with a truthy \<open>priceExpectation\<close>, the comparison
  \<open>product.price.amount > priceExpectation.amount\<close>; the result holds the two amounts
  when it is true.
\<close>

definition price_exceeded ::
  "platform \<Rightarrow> json \<Rightarrow> json option \<Rightarrow> js_error + (json option \<times> json option) option" where
  "price_exceeded P product expectation =
     (if truthy expectation then
        (case get_prop (own product ''price'') ''amount'' of
           Inl e \<Rightarrow> Inl e
         | Inr amount \<Rightarrow>
             if js_gt P amount (own (the expectation) ''amount'')
             then Inr (Some (amount, own (the expectation) ''amount''))
             else Inr None)
      else Inr None)"

definition demo_recipient :: json where
  "demo_recipient =
     JObj [(''name'', JStr ''Demo Customer''),
           (''email'', JStr ''customer@example.com''),
           (''address'', JObj [(''line1'', JStr ''123 Test Street''),
                               (''city'', JStr ''San Francisco''),
                               (''state'', JStr ''CA''),
                               (''postalCode'', JStr ''94105''),
                               (''country'', JStr ''US'')])]"

text \<open>
  The order request. \<open>recipientInfo\<close> is truthy, so its own reads do not throw;
  \<open>recipientInfo.address.line1\<close> throws when there is no address, and the locator is
  computed last.
\<close>

definition build_orderRequest :: "json \<Rightarrow> json \<Rightarrow> js_error + json" where
  "build_orderRequest recipientInfo productLocator =
     (case get_prop (own recipientInfo ''address'') ''line1'' of
        Inl e \<Rightarrow> Inl e
      | Inr line1 \<Rightarrow>
          (let address = the (own recipientInfo ''address'') in
           case toAmazonLocator productLocator of
             Inl e \<Rightarrow> Inl e
           | Inr locator \<Rightarrow>
               Inr (obj
                 [(''recipient'', Some (obj
                     [(''email'', own recipientInfo ''email''),
                      (''physicalAddress'', Some (obj
                         [(''name'', own recipientInfo ''name''),
                          (''line1'', line1),
                          (''line2'', js_or (own address ''line2'') (Some (JStr ''''))),
                          (''city'', own address ''city''),
                          (''state'', own address ''state''),
                          (''postalCode'', own address ''postalCode''),
                          (''country'', js_or (own address ''country'') (Some (JStr ''US'')))]))])),
                  (''payment'', Some (JObj [(''method'', JStr ''solana''), (''currency'', JStr ''usdc'')])),
                  (''lineItems'', Some (JArr [JObj [(''productLocator'', JStr locator)]]))])))"

record prepared_order =
  p_product :: json
  p_validatedAsin :: "json option"
  p_catalogProduct :: catalog_entry
  p_amount :: "json option"
  p_quantity :: json
  p_totalPrice :: json
  p_orderRequest :: json

text \<open>Step 3 onwards, up to the order request, for a decoded product that is not \<open>null\<close>.\<close>

definition validate_and_build ::
  "platform \<Rightarrow> purchase_request \<Rightarrow> request_context \<Rightarrow> json \<Rightarrow> asin_validation
     \<Rightarrow> product_catalog \<Rightarrow> prepared_order attempt" where
  "validate_and_build P req ctx product asinValidation cat =
     (if \<not> valid asinValidation then
        Respond 400 (createErrorResponse P (t_received ctx) ''catalog.validate''
          ''ASIN_NOT_IN_CATALOG''
          (''ASIN '' @ ToString (own product ''asin'') @ '' is not in the approved product catalog'')
          (List.map_filter (\<lambda>kv. map_option (Pair (fst kv)) (snd kv))
            [(''requestId'', Some (JStr (requestId_of ctx))),
             (''providedAsin'', own product ''asin''),
             (''suggestions'', map_option (\<lambda>xs. JArr (map JStr xs)) (suggestions asinValidation)),
             (''availableAsins'', Some (JArr (map (\<lambda>p. JStr (asin p)) (products cat))))]))
      else
        (case v_product asinValidation of
           None \<Rightarrow>
             Raise (TypeError (''Cannot read properties of undefined (reading '' @ quoted ''name'' @ '')''))
         | Some catalogProduct \<Rightarrow>
             (case price_exceeded P product (priceExpectation req) of
                Inl e \<Rightarrow> Raise e
              | Inr (Some (amount, expected)) \<Rightarrow>
                  Respond 400 (createErrorResponse P (t_received ctx) ''sku.validate''
                    ''PRICE_EXCEEDED''
                    (''Current price $'' @ ToString amount @ '' exceeds expected price $''
                       @ ToString expected)
                    (List.map_filter (\<lambda>kv. map_option (Pair (fst kv)) (snd kv))
                      [(''requestId'', Some (JStr (requestId_of ctx))),
                       (''currentPrice'', amount),
                       (''expectedPrice'', expected)]))
              | Inr None \<Rightarrow>
                  (case get_prop (own product ''price'') ''amount'' of
                     Inl e \<Rightarrow> Raise e
                   | Inr amount \<Rightarrow>
                       (let qty = (case quantity req of None \<Rightarrow> JNum 1 0 | Some q \<Rightarrow> q);
                            recipientInfo =
                              (if truthy (shipping req) then the (shipping req) else demo_recipient);
                            productLocator =
                              obj [(''asin'', v_asin asinValidation),
                                   (''offerId'',
                                      if truthy (own product ''offerId'')
                                      then own product ''offerId'' else None)]
                        in case build_orderRequest recipientInfo productLocator of
                             Inl e \<Rightarrow> Raise e
                           | Inr orderRequest \<Rightarrow>
                               Proceed \<lparr>p_product = product,
                                        p_validatedAsin = v_asin asinValidation,
                                        p_catalogProduct = catalogProduct,
                                        p_amount = amount,
                                        p_quantity = qty,
                                        p_totalPrice = js_totalPrice P amount qty,
                                        p_orderRequest = orderRequest\<rparr>)))))"

text \<open>
  The \<open>try\<close> block up to the call of the collaborator, with the catalog variable it
  leaves behind.
\<close>

definition prepare_order ::
  "platform \<Rightarrow> environment \<Rightarrow> product_catalog option \<Rightarrow> purchase_request \<Rightarrow> request_context
     \<Rightarrow> product_catalog option \<Rightarrow> prepared_order attempt \<times> product_catalog option" where
  "prepare_order P env file req ctx pc =
     (case verify_and_decode P env req ctx of
        Respond s b \<Rightarrow> (Respond s b, pc)
      | Raise e \<Rightarrow> (Raise e, pc)
      | Proceed product \<Rightarrow>
          (case get_prop (Some product) ''asin'' of
             Inl e \<Rightarrow> (Raise e, pc)
           | Inr a \<Rightarrow>
               (let r = validateAsin file pc a in
                (validate_and_build P req ctx product (fst r) (the (snd r)), snd r))))"

text \<open>
  The \<open>catch\<close> block: the stage and code are chosen from the message of the exception,
  and the error response is stored under the idempotency key, when there is one,
  before it is sent. \<open>now\<close> is the clock at the time of the exception.
\<close>

definition classify_error :: "string \<Rightarrow> string \<times> string \<times> nat" where
  "classify_error msg =
     (if str_includes msg ''Crossmint API error''
      then (''crossmint.createOrder'', ''CROSSMINT_API_ERROR'', 502)
      else if str_includes msg ''Invalid Crossmint response''
      then (''crossmint.validation'', ''CROSSMINT_INVALID_RESPONSE'', 502)
      else if str_includes msg ''Product signature verification failed''
      then (''auth'', ''INVALID_SIGNATURE'', 400)
      else if str_includes msg ''Invalid product blob''
      then (''validation'', ''INVALID_PRODUCT_BLOB'', 400)
      else (''unknown'', ''INTERNAL_ERROR'', 500))"

definition catch_block ::
  "platform \<Rightarrow> purchase_request \<Rightarrow> request_context \<Rightarrow> int \<Rightarrow> js_error \<Rightarrow> server_state
     \<Rightarrow> http_response \<times> server_state" where
  "catch_block P req ctx now e st =
     (case classify_error (message e) of
        (stage, code, statusCode) \<Rightarrow>
          (let errorResponse =
                 createErrorResponse P now stage code (message e)
                   [(''requestId'', JStr (requestId_of ctx)), (''originalError'', JStr (message e))]
           in (\<lparr>status = statusCode, body = errorResponse\<rparr>,
               if truthy_str (idempotencyKey req)
               then st\<lparr>idempotencyCache :=
                        storeIdempotencyResult now (idempotencyCache st) (the (idempotencyKey req))
                          errorResponse\<rparr>
               else st)))"

definition catalog_entry_json :: "catalog_entry \<Rightarrow> json" where
  "catalog_entry_json p =
     JObj [(''asin'', JStr (asin p)), (''name'', JStr (name p)), (''sku'', JStr (sku p)),
           (''price'', price p)]"

text \<open>The rest of the \<open>try\<close> block, once the collaborator has returned \<open>rawOrderData\<close>.\<close>

definition complete_order ::
  "platform \<Rightarrow> purchase_request \<Rightarrow> request_context \<Rightarrow> prepared_order \<Rightarrow> json \<Rightarrow> server_state
     \<Rightarrow> http_response \<times> server_state" where
  "complete_order P req ctx po rawOrderData st =
     (case validateCrossmintOrderResponse rawOrderData of
        Inl e \<Rightarrow> catch_block P req ctx (t_completed ctx) e st
      | Inr (orderId, rawResponse) \<Rightarrow>
          (let payment =
                 obj [(''asin'', p_validatedAsin po),
                      (''originalAsin'', own (p_product po) ''asin''),
                      (''quantity'', Some (p_quantity po)),
                      (''product'', Some (catalog_entry_json (p_catalogProduct po))),
                      (''totalPrice'', Some (p_totalPrice po)),
                      (''status'', Some (JStr ''completed'')),
                      (''createdAt'', Some (JStr (toISOString P (t_completed ctx)))),
                      (''completedAt'', Some (JStr (toISOString P (t_completed ctx)))),
                      (''crossmintOrder'', Some orderId),
                      (''orderId'', Some orderId),
                      (''trackingInfo'', own rawResponse ''tracking''),
                      (''shipping'', js_or (shipping req) (Some JNull)),
                      (''rawCrossmintResponse'', Some rawResponse)];
               successResponse =
                 obj [(''ok'', Some (JBool True)),
                      (''orderId'', Some orderId),
                      (''status'', Some (JStr ''confirmed'')),
                      (''message'', Some (JStr ''Purchase completed successfully!'')),
                      (''order'', Some (obj
                         [(''orderId'', Some orderId),
                          (''paymentId'', Some (JStr (paymentId_of ctx))),
                          (''asin'', own (p_product po) ''asin''),
                          (''product'', own (p_product po) ''title''),
                          (''quantity'', Some (p_quantity po)),
                          (''unitPrice'', p_amount po),
                          (''totalPrice'', Some (p_totalPrice po)),
                          (''estimatedDelivery'', Some (JStr ''3-5 business days'')),
                          (''tracking'',
                             js_or (own rawResponse ''tracking'')
                               (Some (JStr (''TK'' @ show_int (t_completed ctx)))))])),
                      (''raw'', Some rawResponse)];
               st1 = st\<lparr>pendingPayments :=
                          AList.update (paymentId_of ctx) payment (pendingPayments st)\<rparr>;
               st2 = (if truthy_str (idempotencyKey req)
                      then st1\<lparr>idempotencyCache :=
                                 storeIdempotencyResult (t_completed ctx) (idempotencyCache st1)
                                   (the (idempotencyKey req)) successResponse\<rparr>
                      else st1)
           in (\<lparr>status = 200, body = successResponse\<rparr>, st2)))"

text \<open>
  The handler of \<open>POST /purchase\<close>. It returns the response, the new state, and the list
  of the order requests it sent to the collaborator: none or one.
\<close>

definition missing_fields :: "purchase_request \<Rightarrow> bool" where
  "missing_fields req = (\<not> truthy_str (productBlob req) \<or> \<not> truthy_str (signature req))"

text \<open>
  The idempotency check at the head of the handler: with a truthy key, what
  \<open>checkIdempotency\<close> returns and the cache it leaves; without one, nothing.
\<close>

definition ledger_lookup ::
  "purchase_request \<Rightarrow> request_context \<Rightarrow> server_state \<Rightarrow> json option \<times> idempotency_cache" where
  "ledger_lookup req ctx st =
     (if truthy_str (idempotencyKey req)
      then checkIdempotency (t_received ctx) (idempotencyCache st) (the (idempotencyKey req))
      else (None, idempotencyCache st))"

definition purchase ::
  "platform \<Rightarrow> environment \<Rightarrow> product_catalog option \<Rightarrow> purchase_request \<Rightarrow> request_context
     \<Rightarrow> server_state \<Rightarrow> http_response \<times> server_state \<times> json list" where
  "purchase P env file req ctx st =
     (if missing_fields req then
        (\<lparr>status = 400,
          body = createErrorResponse P (t_received ctx) ''validation'' ''MISSING_REQUIRED_FIELDS''
                   ''productBlob and signature are required''
                   [(''requestId'', JStr (requestId_of ctx)),
                    (''missing'', JArr [JStr (if \<not> truthy_str (productBlob req)
                                              then ''productBlob'' else ''signature'')])]\<rparr>,
         st, [])
      else
        (let existingResult = fst (ledger_lookup req ctx st);
             st0 = st\<lparr>idempotencyCache := snd (ledger_lookup req ctx st)\<rparr>
         in if truthy existingResult then (\<lparr>status = 200, body = the existingResult\<rparr>, st0, [])
            else
              (case prepare_order P env file req ctx (productCatalog st0) of
                 (Respond s b, pc) \<Rightarrow> (\<lparr>status = s, body = b\<rparr>, st0\<lparr>productCatalog := pc\<rparr>, [])
               | (Raise e, pc) \<Rightarrow>
                   (case catch_block P req ctx (t_received ctx) e (st0\<lparr>productCatalog := pc\<rparr>) of
                      (resp, st1) \<Rightarrow> (resp, st1, []))
               | (Proceed po, pc) \<Rightarrow>
                   (case callCrossmintAPI (crossmint ctx) of
                      Inl e \<Rightarrow>
                        (case catch_block P req ctx (t_completed ctx) e
                                (st0\<lparr>productCatalog := pc\<rparr>) of
                           (resp, st1) \<Rightarrow> (resp, st1, [p_orderRequest po]))
                    | Inr rawOrderData \<Rightarrow>
                        (case complete_order P req ctx po rawOrderData
                                (st0\<lparr>productCatalog := pc\<rparr>) of
                           (resp, st1) \<Rightarrow> (resp, st1, [p_orderRequest po]))))))"

text \<open>The catalog that \<open>validateAsin\<close> works with: the loaded one, or the one it loads.\<close>

definition current_catalog :: "product_catalog option \<Rightarrow> product_catalog option \<Rightarrow> product_catalog" where
  "current_catalog file pc = (case pc of None \<Rightarrow> loadProductCatalog file | Some c \<Rightarrow> c)"

text \<open>
  Two response bodies that agree in \<open>ok\<close>, \<open>stage\<close>, \<open>code\<close> and \<open>message\<close>; they may
  differ in their details, which hold the request id and the time.
\<close>

definition same_outcome :: "json \<Rightarrow> json \<Rightarrow> bool" where
  "same_outcome b b' =
     (own b ''ok'' = own b' ''ok'' \<and> own b ''stage'' = own b' ''stage''
      \<and> own b ''code'' = own b' ''code'' \<and> own b ''message'' = own b' ''message'')"

definition is_JObj :: "json \<Rightarrow> bool" where
  "is_JObj v = (case v of JObj kvs \<Rightarrow> True | _ \<Rightarrow> False)"

section \<open>Examples\<close>

text \<open>
  The inputs of the examples below. The platform of the examples compares and multiplies
  decimals exactly, prints a time as its number of milliseconds, and has a checksum in
  the place of HMAC-SHA256: the examples show that the hypotheses of the theorems can be
  met, and no theorem depends on which platform it is.
\<close>

definition dec_less :: "json option \<Rightarrow> json option \<Rightarrow> bool" where
  "dec_less a b =
     (case (a, b) of
        (Some (JNum m e), Some (JNum n f)) \<Rightarrow>
          m * 10 ^ nat (e - min e f) < n * 10 ^ nat (f - min e f)
      | _ \<Rightarrow> False)"

definition example_platform :: platform where
  "example_platform =
     \<lparr>hmacSha256 = (\<lambda>key msg. word_of_int (sum_list (map of_char (key @ msg)))),
      js_gt = (\<lambda>a b. dec_less b a),
      js_totalPrice = (\<lambda>a q. case (a, q) of
                          (Some (JNum m e), JNum n f) \<Rightarrow>
                            (case normalize_dec (m * n) (e + f) of (m', e') \<Rightarrow> JNum m' e')
                        | _ \<Rightarrow> JNull),
      toISOString = show_int\<rparr>"

definition example_env :: environment where
  "example_env = [''SERP_API_KEY'' \<mapsto> ''serp'', ''PRODUCT_SIGNING_SECRET'' \<mapsto> ''secret'']"

definition payment_env :: environment where
  "payment_env =
     [''SERP_API_KEY'' \<mapsto> ''serp'', ''PRODUCT_SIGNING_SECRET'' \<mapsto> ''secret'',
      ''EXACT_RECIPIENT'' \<mapsto> ''HWfT4ivxtYVPeEUkdx5q7VTKy6E8p1nvCiba3Ez21obk'',
      ''FACILITATOR_URL'' \<mapsto> ''https://facilitator.corbits.dev'']"

definition airpods_offer :: json where
  "airpods_offer =
     JObj [(''asin'', JStr ''B08C7KG5LP''), (''title'', JStr ''AirPods''),
           (''price'', JObj [(''amount'', JNum 16999 (-2)), (''currency'', JStr ''USD'')])]"

definition airpods_token :: string where
  "airpods_token = ''eyJhc2luIjoiQjA4QzdLRzVMUCIsInRpdGxlIjoiQWlyUG9kcyIsInByaWNlIjp7ImFtb3VudCI6MTY5Ljk5LCJjdXJyZW5jeSI6IlVTRCJ9fQ''"

definition airpods_signature :: string where
  "airpods_signature = ''00000000000000000000000000000000000000000000000000000000000028ad''"

definition unlisted_offer :: json where
  "unlisted_offer =
     JObj [(''asin'', JStr ''ZZZ_UNKNOWN''),
           (''price'', JObj [(''amount'', JNum 2 2), (''currency'', JStr ''USD'')])]"

definition unlisted_token :: string where
  "unlisted_token = ''eyJhc2luIjoiWlpaX1VOS05PV04iLCJwcmljZSI6eyJhbW91bnQiOjIwMCwiY3VycmVuY3kiOiJVU0QifX0''"

definition unlisted_signature :: string where
  "unlisted_signature = ''0000000000000000000000000000000000000000000000000000000000001f27''"

definition example_request :: purchase_request where
  "example_request =
     \<lparr>productBlob = Some airpods_token, signature = Some airpods_signature, quantity = None,
      shipping = None, idempotencyKey = Some ''k1'', priceExpectation = None\<rparr>"

definition ceiling_request :: purchase_request where
  "ceiling_request = example_request\<lparr>priceExpectation := Some (JObj [(''amount'', JNum 1 2)])\<rparr>"

definition unlisted_request :: purchase_request where
  "unlisted_request =
     \<lparr>productBlob = Some unlisted_token, signature = Some unlisted_signature, quantity = None,
      shipping = None, idempotencyKey = Some ''k1'',
      priceExpectation = Some (JObj [(''amount'', JNum 1 2)])\<rparr>"

definition first_context :: request_context where
  "first_context =
     \<lparr>t_received = 1700000000000, random_request = ''abc'', random_payment = ''def'',
      crossmint = HttpResponse 200 ''OK'' ''{\"orderId\":\"ord_1\"}'', t_completed = 1700000000500\<rparr>"

definition second_context :: request_context where
  "second_context =
     \<lparr>t_received = 1700000002000, random_request = ''xyz'', random_payment = ''uvw'',
      crossmint = HttpResponse 200 ''OK'' ''{\"orderId\":\"ord_2\"}'', t_completed = 1700000002500\<rparr>"

definition initial_state :: server_state where
  "initial_state = \<lparr>productCatalog = None, idempotencyCache = [], pendingPayments = []\<rparr>"

definition example_order :: json where
  "example_order =
     JObj [(''recipient'',
             JObj [(''email'', JStr ''customer@example.com''),
                   (''physicalAddress'',
                     JObj [(''name'', JStr ''Demo Customer''),
                           (''line1'', JStr ''123 Test Street''),
                           (''line2'', JStr ''''),
                           (''city'', JStr ''San Francisco''),
                           (''state'', JStr ''CA''),
                           (''postalCode'', JStr ''94105''),
                           (''country'', JStr ''US'')])]),
           (''payment'', JObj [(''method'', JStr ''solana''), (''currency'', JStr ''usdc'')]),
           (''lineItems'', JArr [JObj [(''productLocator'', JStr ''amazon:B08C7KG5LP'')]])]"

section \<open>Properties\<close>

lemma unhex_hexdigit_table:
  "\<forall>k \<in> set [0..<16]. unhex (''0123456789abcdef'' ! k) = Some k"
  by code_simp

lemma unhex_hexdigit: "unhex (hexdigit n) = Some (n mod 16)"
  using unhex_hexdigit_table by (simp add: hexdigit_def)

lemma length_Buffer_from_hex:
  "\<forall>c \<in> set s. unhex c \<noteq> None \<Longrightarrow> length (Buffer_from_hex s) = length s div 2"
  by (induction s rule: Buffer_from_hex.induct) (auto split: option.splits)

lemma length_digest_hex: "length (Buffer_from_hex (digest_hex w)) = 32"
proof -
  have "\<forall>c \<in> set (digest_hex w). unhex c \<noteq> None"
    by (auto simp: digest_hex_def unhex_hexdigit)
  then have "length (Buffer_from_hex (digest_hex w)) = length (digest_hex w) div 2"
    by (rule length_Buffer_from_hex)
  then show ?thesis by (simp add: digest_hex_def)
qed

text \<open>
  C2. \<open>verifyProductSignature\<close> does not return \<open>false\<close> for a signature of the wrong
  length: for the submitted signature \<open>ab\<close>, which decodes to one byte, it throws the
  RangeError of \<open>timingSafeEqual\<close>, whatever the token and the secret.
\<close>

theorem verifyProductSignature_raises:
  "verifyProductSignature P (env(''PRODUCT_SIGNING_SECRET'' \<mapsto> secret)) blob ''ab''
     = Inl (RangeError ''Input buffers must have the same byte length'')"
proof -
  have "length (Buffer_from_hex ''ab'') = 1" by code_simp
  then show ?thesis
    by (simp add: verifyProductSignature_def createHmac_sha256_hex_def timingSafeEqual_def
        length_digest_hex)
qed

subsection \<open>The codec is lossless on bytes\<close>

lemma replace_all_single: "replace_all c [r] s = map (\<lambda>x. if x = c then r else x) s"
  by (induction s) (auto simp: replace_all_def)















subsection \<open>The examples, evaluated\<close>



lemma decode_airpods: "decodeProduct airpods_token = Inr airpods_offer"
  by code_simp

lemma verify_airpods:
  "verifyProductSignature example_platform example_env airpods_token airpods_signature = Inr True"
  by code_simp

lemma decode_unlisted: "decodeProduct unlisted_token = Inr unlisted_offer"
  by code_simp

lemma verify_unlisted:
  "verifyProductSignature example_platform example_env unlisted_token unlisted_signature = Inr True"
  by code_simp

lemma request_ids:
  "requestId_of first_context = ''req_1700000000000_abc''"
  "requestId_of second_context = ''req_1700000002000_xyz''"
  by code_simp+

lemma gt_example: "js_gt example_platform (Some (JNum 16999 (-2))) (Some (JNum 1 2))"
  "js_gt example_platform (Some (JNum 2 2)) (Some (JNum 1 2))"
  by code_simp+

subsection \<open>Round trip of the offer codec\<close>



subsection \<open>What decoding rejects\<close>



subsection \<open>Expiry of idempotency records\<close>

lemma reaper_fold_keeps_absent:
  "map_of c k = None \<Longrightarrow> map_of (fold (reaper_step now) xs c) k = None"
proof (induction xs arbitrary: c)
  case Nil
  then show ?case by simp
next
  case (Cons x xs)
  have "map_of (reaper_step now x c) k = None"
    using Cons.prems by (simp add: reaper_step_def delete_conv')
  then show ?case using Cons.IH by simp
qed

lemma reaper_fold_removes:
  "(k, e) \<in> set xs \<Longrightarrow> 3600000 \<le> now - timestamp e
     \<Longrightarrow> map_of (fold (reaper_step now) xs c) k = None"
proof (induction xs arbitrary: c)
  case Nil
  then show ?case by simp
next
  case (Cons x xs)
  show ?case
  proof (cases "x = (k, e)")
    case True
    then have "map_of (reaper_step now x c) k = None"
      using Cons.prems(2) by (simp add: reaper_step_def delete_conv')
    then show ?thesis by (simp add: reaper_fold_keeps_absent)
  next
    case False
    then have "(k, e) \<in> set xs" using Cons.prems(1) by simp
    then show ?thesis using Cons.IH Cons.prems(2) by simp
  qed
qed

text \<open>
  C5. A record whose age has reached the retention window of 3600000 ms (so also one
  older than 3600 seconds) is not returned by \<open>checkIdempotency\<close>, which deletes it,
  and one run of the reaper at that time deletes it too, whatever requests were or were not made.
\<close>

theorem expired_record_is_absent:
  assumes "map_of cache key = Some e"
    and "3600000 \<le> now - timestamp e"
  shows "fst (checkIdempotency now cache key) = None
    \<and> map_of (snd (checkIdempotency now cache key)) key = None
    \<and> map_of (reaper now cache) key = None"
proof -
  have "(key, e) \<in> set cache" using assms(1) by (rule map_of_SomeD)
  then have "map_of (reaper now cache) key = None"
    unfolding reaper_def using assms(2) by (rule reaper_fold_removes)
  moreover have "\<not> now - timestamp e < 3600000" using assms(2) by simp
  then have "checkIdempotency now cache key = (None, AList.delete key cache)"
    using assms(1) by (simp add: checkIdempotency_def)
  ultimately show ?thesis by (simp add: delete_conv')
qed

theorem expired_record_is_absent_witness:
  "fst (checkIdempotency 3600001 [(''k1'', \<lparr>result = JNull, timestamp = 0\<rparr>)] ''k1'') = None
    \<and> map_of (snd (checkIdempotency 3600001 [(''k1'', \<lparr>result = JNull, timestamp = 0\<rparr>)] ''k1'')) ''k1'' = None
    \<and> map_of (reaper 3600001 [(''k1'', \<lparr>result = JNull, timestamp = 0\<rparr>)]) ''k1'' = None"
  using expired_record_is_absent
    [of "[(''k1'', \<lparr>result = JNull, timestamp = 0\<rparr>)]" "''k1''"
        "\<lparr>result = JNull, timestamp = 0\<rparr>" 3600001]
  by simp

subsection \<open>Catalog fallback\<close>




subsection \<open>Startup configuration\<close>

text \<open>
  C9, as stated, fails for the asset and the chain: with neither \<open>EXACT_ASSET\<close> nor
  \<open>EXACT_CHAIN\<close> set, the server starts, the startup assertion of the payment scheme
  passes, and the payment configuration has the defaults \<open>USDC\<close> and \<open>solana\<close>.
\<close>

theorem partial_configuration_counterexample:
  "payment_env ''EXACT_ASSET'' = None \<and> payment_env ''EXACT_CHAIN'' = None
   \<and> startup payment_env
        = Inr \<lparr>productCatalog = None, idempotencyCache = [], pendingPayments = []\<rparr>
   \<and> assertExactSchemeOnly payment_env = Inr ()
   \<and> getExactPaymentConfig payment_env
        = Inr \<lparr>scheme = ''exact'', asset = ''USDC'', chain = ''solana'',
               recipient = ''HWfT4ivxtYVPeEUkdx5q7VTKy6E8p1nvCiba3Ez21obk'',
               facilitatorUrl = ''https://facilitator.corbits.dev''\<rparr>"
  by (simp add: payment_env_def startup_def validateEnvironment_def truthy_str_def
      assertExactSchemeOnly_def getExactPaymentConfig_def or_default_def)

text \<open>
  C9, amended. Without a signing secret \<open>validateEnvironment\<close> ends the process with
  exit code 1 before the server listens; a server that has started has a secret, so
  \<open>createHmac\<close> never fails for the lack of a key while a request is served. Of the payment
  configuration, \<open>getExactPaymentConfig\<close>, and with it \<open>assertExactSchemeOnly\<close>, throws
  exactly when the recipient or the facilitator URL is missing; the asset and the chain
  are optional and default to \<open>USDC\<close> and \<open>solana\<close>.
\<close>

theorem startup_configuration:
  "(\<not> truthy_str (env ''PRODUCT_SIGNING_SECRET'') \<longrightarrow> startup env = Inl 1)
   \<and> (\<forall>st. startup env = Inr st \<longrightarrow>
         truthy_str (env ''PRODUCT_SIGNING_SECRET'')
         \<and> (\<forall>msg. \<exists>h. createHmac_sha256_hex P (env ''PRODUCT_SIGNING_SECRET'') msg = Inr h))
   \<and> ((\<exists>e. getExactPaymentConfig env = Inl e)
        \<longleftrightarrow> \<not> truthy_str (env ''EXACT_RECIPIENT'') \<or> \<not> truthy_str (env ''FACILITATOR_URL''))
   \<and> ((\<exists>e. assertExactSchemeOnly env = Inl e) \<longleftrightarrow> (\<exists>e. getExactPaymentConfig env = Inl e))
   \<and> (\<forall>cfg. getExactPaymentConfig env = Inr cfg \<longrightarrow>
         asset cfg = or_default (env ''EXACT_ASSET'') ''USDC''
         \<and> chain cfg = or_default (env ''EXACT_CHAIN'') ''solana'')"
proof (intro conjI allI impI)
  show "startup env = Inl 1" if "\<not> truthy_str (env ''PRODUCT_SIGNING_SECRET'')"
    using that by (simp add: startup_def validateEnvironment_def)
next
  fix st assume s: "startup env = Inr st"
  then show t: "truthy_str (env ''PRODUCT_SIGNING_SECRET'')"
    by (auto simp: startup_def validateEnvironment_def Let_def split: if_splits sum.splits)
  fix msg
  show "\<exists>h. createHmac_sha256_hex P (env ''PRODUCT_SIGNING_SECRET'') msg = Inr h"
    using t by (cases "env ''PRODUCT_SIGNING_SECRET''")
      (simp_all add: createHmac_sha256_hex_def truthy_str_def)
next
  show "(\<exists>e. getExactPaymentConfig env = Inl e)
        \<longleftrightarrow> \<not> truthy_str (env ''EXACT_RECIPIENT'') \<or> \<not> truthy_str (env ''FACILITATOR_URL'')"
    by (auto simp: getExactPaymentConfig_def)
next
  show "(\<exists>e. assertExactSchemeOnly env = Inl e) \<longleftrightarrow> (\<exists>e. getExactPaymentConfig env = Inl e)"
    by (auto simp: assertExactSchemeOnly_def getExactPaymentConfig_def split: sum.splits)
next
  fix cfg assume "getExactPaymentConfig env = Inr cfg"
  then show "asset cfg = or_default (env ''EXACT_ASSET'') ''USDC''"
    and "chain cfg = or_default (env ''EXACT_CHAIN'') ''solana''"
    by (auto simp: getExactPaymentConfig_def split: if_splits)
qed

theorem startup_configuration_witness:
  "startup (example_env(''PRODUCT_SIGNING_SECRET'' := None)) = Inl 1
   \<and> startup example_env = Inr initial_state
   \<and> (\<exists>h. createHmac_sha256_hex example_platform (example_env ''PRODUCT_SIGNING_SECRET'') ''e30'' = Inr h)
   \<and> (\<exists>e. getExactPaymentConfig example_env = Inl e)"
proof -
  have s: "startup example_env = Inr initial_state"
    by (simp add: example_env_def startup_def validateEnvironment_def truthy_str_def
        initial_state_def)
  have n: "\<not> truthy_str ((example_env(''PRODUCT_SIGNING_SECRET'' := None)) ''PRODUCT_SIGNING_SECRET'')"
    by (simp add: truthy_str_def)
  have r: "\<not> truthy_str (example_env ''EXACT_RECIPIENT'')"
    by (simp add: example_env_def truthy_str_def)
  show ?thesis
    using startup_configuration [of "example_env(''PRODUCT_SIGNING_SECRET'' := None)" example_platform]
      startup_configuration [of example_env example_platform] s n r
    by blast
qed

subsection \<open>The paths of the purchase handler\<close>

lemma own_createErrorResponse:
  "own (createErrorResponse P now stage code msg details) ''stage'' = Some (JStr stage)"
  "own (createErrorResponse P now stage code msg details) ''code'' = Some (JStr code)"
  by (simp_all add: createErrorResponse_def own_def)

lemma purchase_orders:
  "snd (snd (purchase P env file req ctx st)) =
     (if missing_fields req \<or> truthy (fst (ledger_lookup req ctx st)) then []
      else case fst (prepare_order P env file req ctx (productCatalog st)) of
             Proceed po \<Rightarrow> [p_orderRequest po]
           | _ \<Rightarrow> [])"
  by (simp add: purchase_def Let_def split: prod.splits attempt.splits sum.splits)

lemma length_purchase_orders: "length (snd (snd (purchase P env file req ctx st))) \<le> 1"
  by (simp add: purchase_orders split: attempt.splits)

lemma purchase_Respond:
  assumes "\<not> missing_fields req" "\<not> truthy (fst (ledger_lookup req ctx st))"
    and "fst (prepare_order P env file req ctx (productCatalog st)) = Respond s b"
  shows "fst (purchase P env file req ctx st) = \<lparr>status = s, body = b\<rparr>"
    and "idempotencyCache (fst (snd (purchase P env file req ctx st))) = snd (ledger_lookup req ctx st)"
  using assms
  by (auto simp: purchase_def Let_def split: prod.splits attempt.splits sum.splits)

lemma purchase_Respond_state:
  assumes "\<not> missing_fields req" "\<not> truthy (fst (ledger_lookup req ctx st))"
    and "fst (prepare_order P env file req ctx (productCatalog st)) = Respond s b"
  shows "productCatalog (fst (snd (purchase P env file req ctx st)))
           = snd (prepare_order P env file req ctx (productCatalog st))"
    and "snd (snd (purchase P env file req ctx st)) = []"
  using assms
  by (auto simp: purchase_def Let_def split: prod.splits attempt.splits sum.splits)

lemma purchase_replay:
  assumes "\<not> missing_fields req" "truthy (fst (ledger_lookup req ctx st))"
  shows "purchase P env file req ctx st
     = (\<lparr>status = 200, body = the (fst (ledger_lookup req ctx st))\<rparr>,
        st\<lparr>idempotencyCache := snd (ledger_lookup req ctx st)\<rparr>, [])"
  using assms by (simp add: purchase_def Let_def)

lemma validate_and_build_Proceed:
  assumes "validate_and_build P req ctx product av cat = Proceed po"
  shows "valid av \<and> v_product av \<noteq> None
    \<and> price_exceeded P product (priceExpectation req) = Inr None
    \<and> (\<exists>recipientInfo.
          build_orderRequest recipientInfo
            (obj [(''asin'', v_asin av),
                  (''offerId'', if truthy (own product ''offerId'') then own product ''offerId'' else None)])
            = Inr (p_orderRequest po))"
  using assms
  by (auto simp: validate_and_build_def Let_def
      split: if_splits option.splits sum.splits prod.splits)



lemma validateAsin_catalog: "snd (validateAsin file pc a) = Some (current_catalog file pc)"
  by (simp add: validateAsin_def current_catalog_def Let_def split: option.splits)


lemma verify_and_decode_Proceed:
  assumes "verify_and_decode P env req ctx = Proceed product"
  shows "verifyProductSignature P env (the (productBlob req)) (the (signature req)) = Inr True
     \<and> decodeProduct (the (productBlob req)) = Inr product"
  using assms
  by (auto simp: verify_and_decode_def split: sum.splits if_splits)

lemma get_prop_Some: "get_prop (Some v) k = Inr a \<Longrightarrow> a = own v k \<and> v \<noteq> JNull"
  by (cases v) (auto simp: get_prop_def)

lemma prepare_order_Proceed:
  assumes "fst (prepare_order P env file req ctx pc) = Proceed po"
  shows "\<exists>product. verify_and_decode P env req ctx = Proceed product \<and> product \<noteq> JNull
     \<and> validate_and_build P req ctx product (fst (validateAsin file pc (own product ''asin'')))
           (current_catalog file pc) = Proceed po"
  using assms
  by (auto simp: prepare_order_def Let_def validateAsin_catalog
      split: attempt.splits sum.splits dest!: get_prop_Some)


lemma price_exceeded_Some:
  assumes "truthy expectation"
    and "get_prop (own product ''price'') ''amount'' = Inr amount"
    and "js_gt P amount (own (the expectation) ''amount'')"
  shows "price_exceeded P product expectation = Inr (Some (amount, own (the expectation) ''amount''))"
  using assms by (simp add: price_exceeded_def)

lemma get_prop_Inr_not_None: "get_prop v k = Inr a \<Longrightarrow> v \<noteq> None"
  by (cases v) (simp_all add: get_prop_def)

subsection \<open>The examples in the handler\<close>

lemma prepare_unlisted':
  assumes "pc = None \<or> pc = Some fallback_catalog"
  shows "fst (prepare_order example_platform example_env None unlisted_request ctx pc)
     = Respond 400 (createErrorResponse example_platform (t_received ctx) ''catalog.validate''
          ''ASIN_NOT_IN_CATALOG'' ''ASIN ZZZ_UNKNOWN is not in the approved product catalog''
          [(''requestId'', JStr (requestId_of ctx)),
           (''providedAsin'', JStr ''ZZZ_UNKNOWN''),
           (''suggestions'', JArr [JStr ''B08C7KG5LP'', JStr ''B01MTB55WH'']),
           (''availableAsins'', JArr [JStr ''B08C7KG5LP'', JStr ''B01MTB55WH''])])"
    and "snd (prepare_order example_platform example_env None unlisted_request ctx pc)
     = Some fallback_catalog"
  using assms
  by (auto simp add: prepare_order_def verify_and_decode_def unlisted_request_def decode_unlisted
      verify_unlisted unlisted_offer_def get_prop_def own_def validateAsin_def loadProductCatalog_def
      fallback_catalog_def validate_and_build_def Let_def)

lemma unlisted_basic:
  "\<not> missing_fields unlisted_request"
  "truthy_str (idempotencyKey unlisted_request)"
  "the (idempotencyKey unlisted_request) = ''k1''"
  by (simp_all add: missing_fields_def unlisted_request_def truthy_str_def unlisted_token_def
      unlisted_signature_def)

lemma example_basic:
  "\<not> missing_fields example_request"
  "truthy_str (idempotencyKey example_request)"
  "the (idempotencyKey example_request) = ''k1''"
  "\<not> missing_fields ceiling_request"
  "the (idempotencyKey ceiling_request) = ''k1''"
  "truthy_str (idempotencyKey ceiling_request)"
  by (simp_all add: missing_fields_def example_request_def truthy_str_def airpods_token_def
      airpods_signature_def ceiling_request_def)

lemma prepare_airpods:
  "\<exists>po. fst (prepare_order example_platform example_env None example_request ctx None) = Proceed po
     \<and> p_orderRequest po = example_order"
  by (simp add: prepare_order_def verify_and_decode_def example_request_def decode_airpods
      verify_airpods airpods_offer_def get_prop_def own_def validateAsin_def loadProductCatalog_def
      fallback_catalog_def validate_and_build_def Let_def
      price_exceeded_def build_orderRequest_def demo_recipient_def toAmazonLocator_def obj_def
      js_or_def example_order_def)

lemma prepare_ceiling:
  "valid (fst (validateAsin None None (own airpods_offer ''asin'')))"
  "v_product (fst (validateAsin None None (own airpods_offer ''asin''))) \<noteq> None"
  "get_prop (own airpods_offer ''price'') ''amount'' = Inr (Some (JNum 16999 (-2)))"
  by (simp_all add: airpods_offer_def get_prop_def own_def validateAsin_def loadProductCatalog_def
      fallback_catalog_def Let_def)

subsection \<open>Required fields come before the ledger\<close>

text \<open>
  C10. A request without \<open>productBlob\<close> or without \<open>signature\<close> is answered with
  status 400, stage \<open>validation\<close> and code \<open>MISSING_REQUIRED_FIELDS\<close>, whatever the
  ledger holds for its idempotency key: the state, and the ledger in it, is left as it
  was, and no order is sent.
\<close>

theorem missing_fields_rejected_first:
  assumes "productBlob req = None \<or> signature req = None"
  shows "status (fst (purchase P env file req ctx st)) = 400
    \<and> own (body (fst (purchase P env file req ctx st))) ''stage'' = Some (JStr ''validation'')
    \<and> own (body (fst (purchase P env file req ctx st))) ''code'' = Some (JStr ''MISSING_REQUIRED_FIELDS'')
    \<and> fst (snd (purchase P env file req ctx st)) = st
    \<and> snd (snd (purchase P env file req ctx st)) = []"
proof -
  have "missing_fields req"
    using assms by (auto simp: missing_fields_def truthy_str_def)
  then show ?thesis
    by (simp add: purchase_def own_createErrorResponse)
qed

theorem missing_fields_rejected_first_witness:
  "status (fst (purchase example_platform example_env None (example_request\<lparr>signature := None\<rparr>)
      second_context
      \<lparr>productCatalog = None,
        idempotencyCache = [(''k1'', \<lparr>result = JObj [(''ok'', JBool True)], timestamp = 1700000000500\<rparr>)],
        pendingPayments = []\<rparr>)) = 400
   \<and> fst (ledger_lookup (example_request\<lparr>signature := None\<rparr>) second_context
      \<lparr>productCatalog = None,
        idempotencyCache = [(''k1'', \<lparr>result = JObj [(''ok'', JBool True)], timestamp = 1700000000500\<rparr>)],
        pendingPayments = []\<rparr>) = Some (JObj [(''ok'', JBool True)])"
  using missing_fields_rejected_first [of "example_request\<lparr>signature := None\<rparr>"
      example_platform example_env None second_context
      "\<lparr>productCatalog = None,
        idempotencyCache = [(''k1'', \<lparr>result = JObj [(''ok'', JBool True)], timestamp = 1700000000500\<rparr>)],
        pendingPayments = []\<rparr>"]
  by (simp add: example_request_def ledger_lookup_def checkIdempotency_def truthy_str_def
      second_context_def)

subsection \<open>The locator of the order\<close>



subsection \<open>The price ceiling\<close>

text \<open>
  C6, as stated, fails for a request that an earlier step rejects: the offer below has
  a price of 200 against an expected 100, but its identifier is not in the catalog, and
  the response has the stage \<open>catalog.validate\<close>.
\<close>

theorem price_ceiling_counterexample:
  "truthy (priceExpectation unlisted_request)
   \<and> decodeProduct (the (productBlob unlisted_request)) = Inr unlisted_offer
   \<and> js_gt example_platform (own (the (own unlisted_offer ''price'')) ''amount'')
        (own (the (priceExpectation unlisted_request)) ''amount'')
   \<and> own (body (fst (purchase example_platform example_env None unlisted_request first_context
                     initial_state))) ''stage'' = Some (JStr ''catalog.validate'')"
proof -
  have nt: "\<not> truthy (fst (ledger_lookup unlisted_request first_context initial_state))"
    by (simp add: ledger_lookup_def checkIdempotency_def initial_state_def unlisted_basic)
  have "fst (prepare_order example_platform example_env None unlisted_request first_context
          (productCatalog initial_state))
     = Respond 400 (createErrorResponse example_platform (t_received first_context) ''catalog.validate''
          ''ASIN_NOT_IN_CATALOG'' ''ASIN ZZZ_UNKNOWN is not in the approved product catalog''
          [(''requestId'', JStr (requestId_of first_context)),
           (''providedAsin'', JStr ''ZZZ_UNKNOWN''),
           (''suggestions'', JArr [JStr ''B08C7KG5LP'', JStr ''B01MTB55WH'']),
           (''availableAsins'', JArr [JStr ''B08C7KG5LP'', JStr ''B01MTB55WH''])])"
    by (simp add: prepare_unlisted' initial_state_def)
  from purchase_Respond(1) [OF unlisted_basic(1) nt this]
  have "own (body (fst (purchase example_platform example_env None unlisted_request first_context
                     initial_state))) ''stage'' = Some (JStr ''catalog.validate'')"
    by (simp add: own_createErrorResponse)
  moreover have "js_gt example_platform (own (the (own unlisted_offer ''price'')) ''amount'')
        (own (the (priceExpectation unlisted_request)) ''amount'')"
    using gt_example(2) by (simp add: unlisted_offer_def unlisted_request_def own_def)
  ultimately show ?thesis
    by (simp add: decode_unlisted unlisted_request_def)
qed

text \<open>
  C6, amended. When the price of the decoded offer exceeds the amount of a price
  expectation, no order is sent, whatever else holds of the request; and when the
  request has both fields, no live ledger record, a signature that verifies and an
  identifier that the catalog validates with an entry, the response has status 400,
  stage \<open>sku.validate\<close> and code \<open>PRICE_EXCEEDED\<close>.
\<close>

theorem price_ceiling_enforced:
  assumes "productBlob req = Some blob"
    and "decodeProduct blob = Inr product"
    and "truthy (priceExpectation req)"
    and "get_prop (own product ''price'') ''amount'' = Inr amount"
    and "js_gt P amount (own (the (priceExpectation req)) ''amount'')"
  shows "snd (snd (purchase P env file req ctx st)) = []
    \<and> (\<not> missing_fields req \<and> \<not> truthy (fst (ledger_lookup req ctx st))
        \<and> verifyProductSignature P env blob (the (signature req)) = Inr True
        \<and> valid (fst (validateAsin file (productCatalog st) (own product ''asin'')))
        \<and> v_product (fst (validateAsin file (productCatalog st) (own product ''asin''))) \<noteq> None
       \<longrightarrow> status (fst (purchase P env file req ctx st)) = 400
         \<and> own (body (fst (purchase P env file req ctx st))) ''stage'' = Some (JStr ''sku.validate'')
         \<and> own (body (fst (purchase P env file req ctx st))) ''code'' = Some (JStr ''PRICE_EXCEEDED''))"
proof (intro conjI impI)
  let ?pc = "productCatalog st"
  let ?av = "fst (validateAsin file ?pc (own product ''asin''))"
  have pe: "price_exceeded P product (priceExpectation req)
              = Inr (Some (amount, own (the (priceExpectation req)) ''amount''))"
    using assms(3,4,5) by (rule price_exceeded_Some)
  have no_proceed: "fst (prepare_order P env file req ctx ?pc) \<noteq> Proceed po" for po
  proof
    assume "fst (prepare_order P env file req ctx ?pc) = Proceed po"
    from prepare_order_Proceed [OF this] obtain product' where
      vd: "verify_and_decode P env req ctx = Proceed product'"
      and vb: "validate_and_build P req ctx product'
                 (fst (validateAsin file ?pc (own product' ''asin''))) (current_catalog file ?pc)
               = Proceed po"
      by (elim conjE exE)
    have "product' = product"
      using verify_and_decode_Proceed [OF vd] assms(1,2) by simp
    then have "price_exceeded P product (priceExpectation req) = Inr None"
      using validate_and_build_Proceed [OF vb] by simp
    then show False using pe by simp
  qed
  show "snd (snd (purchase P env file req ctx st)) = []"
  proof (cases "fst (prepare_order P env file req ctx ?pc)")
    case (Proceed po)
    then show ?thesis using no_proceed [of po] by simp
  qed (simp_all add: purchase_orders)
  assume h: "\<not> missing_fields req \<and> \<not> truthy (fst (ledger_lookup req ctx st))
        \<and> verifyProductSignature P env blob (the (signature req)) = Inr True
        \<and> valid ?av \<and> v_product ?av \<noteq> None"
  have vd: "verify_and_decode P env req ctx = Proceed product"
    using h assms(1,2) by (simp add: verify_and_decode_def)
  have "own product ''price'' \<noteq> None"
    using assms(4) by (rule get_prop_Inr_not_None)
  then have "product \<noteq> JNull" by (auto simp: own_def)
  then have gp: "get_prop (Some product) ''asin'' = Inr (own product ''asin'')"
    by (cases product) (simp_all add: get_prop_def)
  obtain cp where cp: "v_product ?av = Some cp" using h by auto
  have "validate_and_build P req ctx product ?av (current_catalog file ?pc)
      = Respond 400 (createErrorResponse P (t_received ctx) ''sku.validate'' ''PRICE_EXCEEDED''
          (''Current price $'' @ ToString amount @ '' exceeds expected price $''
             @ ToString (own (the (priceExpectation req)) ''amount''))
          (List.map_filter (\<lambda>kv. map_option (Pair (fst kv)) (snd kv))
             [(''requestId'', Some (JStr (requestId_of ctx))),
              (''currentPrice'', amount),
              (''expectedPrice'', own (the (priceExpectation req)) ''amount'')]))"
    using h cp pe by (simp add: validate_and_build_def)
  then have "fst (prepare_order P env file req ctx ?pc)
      = Respond 400 (createErrorResponse P (t_received ctx) ''sku.validate'' ''PRICE_EXCEEDED''
          (''Current price $'' @ ToString amount @ '' exceeds expected price $''
             @ ToString (own (the (priceExpectation req)) ''amount''))
          (List.map_filter (\<lambda>kv. map_option (Pair (fst kv)) (snd kv))
             [(''requestId'', Some (JStr (requestId_of ctx))),
              (''currentPrice'', amount),
              (''expectedPrice'', own (the (priceExpectation req)) ''amount'')]))"
    using vd gp by (simp add: prepare_order_def Let_def validateAsin_catalog)
  from purchase_Respond(1) [OF _ _ this] h
  have r: "fst (purchase P env file req ctx st)
      = \<lparr>status = 400, body = createErrorResponse P (t_received ctx) ''sku.validate'' ''PRICE_EXCEEDED''
          (''Current price $'' @ ToString amount @ '' exceeds expected price $''
             @ ToString (own (the (priceExpectation req)) ''amount''))
          (List.map_filter (\<lambda>kv. map_option (Pair (fst kv)) (snd kv))
             [(''requestId'', Some (JStr (requestId_of ctx))),
              (''currentPrice'', amount),
              (''expectedPrice'', own (the (priceExpectation req)) ''amount'')])\<rparr>"
    by simp
  show "status (fst (purchase P env file req ctx st)) = 400" by (simp add: r)
  show "own (body (fst (purchase P env file req ctx st))) ''stage'' = Some (JStr ''sku.validate'')"
    by (simp add: r own_createErrorResponse)
  show "own (body (fst (purchase P env file req ctx st))) ''code'' = Some (JStr ''PRICE_EXCEEDED'')"
    by (simp add: r own_createErrorResponse)
qed

theorem price_ceiling_enforced_witness:
  "snd (snd (purchase example_platform example_env None ceiling_request first_context initial_state)) = []
   \<and> status (fst (purchase example_platform example_env None ceiling_request first_context
                 initial_state)) = 400
   \<and> own (body (fst (purchase example_platform example_env None ceiling_request first_context
                 initial_state))) ''stage'' = Some (JStr ''sku.validate'')
   \<and> own (body (fst (purchase example_platform example_env None ceiling_request first_context
                 initial_state))) ''code'' = Some (JStr ''PRICE_EXCEEDED'')"
proof -
  have h1: "productBlob ceiling_request = Some airpods_token"
    by (simp add: ceiling_request_def example_request_def)
  have h3: "truthy (priceExpectation ceiling_request)"
    by (simp add: ceiling_request_def)
  have h5: "js_gt example_platform (Some (JNum 16999 (-2)))
              (own (the (priceExpectation ceiling_request)) ''amount'')"
    using gt_example(1) by (simp add: ceiling_request_def own_def)
  have nt: "\<not> truthy (fst (ledger_lookup ceiling_request first_context initial_state))"
    by (simp add: ledger_lookup_def checkIdempotency_def initial_state_def example_basic)
  have v: "verifyProductSignature example_platform example_env airpods_token
             (the (signature ceiling_request)) = Inr True"
    using verify_airpods by (simp add: ceiling_request_def example_request_def)
  show ?thesis
    using price_ceiling_enforced [OF h1 decode_airpods h3 prepare_ceiling(3) h5,
        of example_env None first_context initial_state]
      example_basic(4) nt v prepare_ceiling(1,2)
    by (simp add: initial_state_def)
qed

subsection \<open>Repeated submissions\<close>

lemma truthy_JObj: "is_JObj v \<Longrightarrow> truthy (Some v)"
  by (cases v) (simp_all add: is_JObj_def)

lemma catch_block_stores:
  assumes "truthy_str (idempotencyKey req)"
  shows "map_of (idempotencyCache (snd (catch_block P req ctx now e st))) (the (idempotencyKey req))
           = Some \<lparr>result = body (fst (catch_block P req ctx now e st)), timestamp = now\<rparr>
       \<and> is_JObj (body (fst (catch_block P req ctx now e st)))"
  using assms
  by (simp add: catch_block_def Let_def storeIdempotencyResult_def update_conv'
      createErrorResponse_def is_JObj_def split: prod.splits)

lemma complete_order_stores:
  assumes "truthy_str (idempotencyKey req)"
  shows "map_of (idempotencyCache (snd (complete_order P req ctx po raw st))) (the (idempotencyKey req))
           = Some \<lparr>result = body (fst (complete_order P req ctx po raw st)),
                    timestamp = t_completed ctx\<rparr>
       \<and> is_JObj (body (fst (complete_order P req ctx po raw st)))"
proof (cases "validateCrossmintOrderResponse raw")
  case (Inl e)
  then show ?thesis
    using catch_block_stores [OF assms, of P ctx "t_completed ctx" e st]
    by (simp add: complete_order_def)
next
  case (Inr r)
  then show ?thesis
    using assms
    by (cases r)
      (simp add: complete_order_def Let_def storeIdempotencyResult_def update_conv' obj_def
        is_JObj_def)
qed

text \<open>
  What a run that got past the ledger, and did not respond from inside the \<open>try\<close>
  block, leaves in the ledger.
\<close>

lemma purchase_stores:
  assumes "\<not> missing_fields req" "truthy_str (idempotencyKey req)"
    and "\<not> truthy (fst (ledger_lookup req ctx st))"
    and "\<forall>s b. fst (prepare_order P env file req ctx (productCatalog st)) \<noteq> Respond s b"
  shows "\<exists>t. (t = t_received ctx \<or> t = t_completed ctx)
      \<and> map_of (idempotencyCache (fst (snd (purchase P env file req ctx st)))) (the (idempotencyKey req))
           = Some \<lparr>result = body (fst (purchase P env file req ctx st)), timestamp = t\<rparr>
      \<and> is_JObj (body (fst (purchase P env file req ctx st)))"
proof -
  let ?st0 = "st\<lparr>idempotencyCache := snd (ledger_lookup req ctx st)\<rparr>"
  obtain a pc where pr: "prepare_order P env file req ctx (productCatalog st) = (a, pc)"
    by (cases "prepare_order P env file req ctx (productCatalog st)")
  show ?thesis
  proof (cases a)
    case (Respond s b)
    then show ?thesis using assms(4) pr by simp
  next
    case (Raise e)
    then show ?thesis
      using assms(1,3) pr
        catch_block_stores [OF assms(2), of P ctx "t_received ctx" e "?st0\<lparr>productCatalog := pc\<rparr>"]
      by (auto simp add: purchase_def Let_def split_beta)
  next
    case (Proceed po)
    show ?thesis
    proof (cases "callCrossmintAPI (crossmint ctx)")
      case (Inl e)
      then show ?thesis
        using assms(1,3) pr Proceed
          catch_block_stores [OF assms(2), of P ctx "t_completed ctx" e "?st0\<lparr>productCatalog := pc\<rparr>"]
        by (auto simp add: purchase_def Let_def split_beta)
    next
      case (Inr raw)
      then show ?thesis
        using assms(1,3) pr Proceed
          complete_order_stores [OF assms(2), of P ctx po raw "?st0\<lparr>productCatalog := pc\<rparr>"]
        by (auto simp add: purchase_def Let_def split_beta)
    qed
  qed
qed

lemma ledger_lookup_live:
  assumes "truthy_str (idempotencyKey req)"
    and "map_of (idempotencyCache st) (the (idempotencyKey req)) = Some \<lparr>result = r, timestamp = t\<rparr>"
    and "t_received ctx - t < 3600000"
  shows "ledger_lookup req ctx st = (Some r, idempotencyCache st)"
  using assms by (simp add: ledger_lookup_def checkIdempotency_def)

lemma ledger_lookup_fresh:
  assumes "map_of (idempotencyCache st) (the (idempotencyKey req)) = None"
  shows "ledger_lookup req ctx st = (None, idempotencyCache st)"
  using assms by (simp add: ledger_lookup_def checkIdempotency_def)

lemma same_outcome_createErrorResponse:
  "same_outcome (createErrorResponse P t stage code msg d) (createErrorResponse P t' stage code msg d')"
  by (simp add: same_outcome_def createErrorResponse_def own_def)

lemma verify_and_decode_ctx:
  "(case verify_and_decode P env req ctx of
      Respond s b \<Rightarrow> \<exists>b'. verify_and_decode P env req ctx' = Respond s b' \<and> same_outcome b b'
    | Raise e \<Rightarrow> verify_and_decode P env req ctx' = Raise e
    | Proceed p \<Rightarrow> verify_and_decode P env req ctx' = Proceed p)"
  by (simp add: verify_and_decode_def same_outcome_createErrorResponse split: sum.splits)

lemma validateAsin_same_catalog:
  assumes "current_catalog file pc' = current_catalog file pc"
  shows "fst (validateAsin file pc' a) = fst (validateAsin file pc a)"
  using assms by (simp add: validateAsin_def current_catalog_def Let_def)

lemma validate_and_build_ctx:
  assumes "validate_and_build P req ctx product av cat = Respond s b"
  shows "\<exists>b'. validate_and_build P req ctx' product av cat = Respond s b' \<and> same_outcome b b'"
proof (cases "valid av")
  case False
  then show ?thesis
    using assms by (auto simp: validate_and_build_def same_outcome_createErrorResponse)
next
  case True
  then obtain cp where cp: "v_product av = Some cp"
    using assms by (cases "v_product av") (simp_all add: validate_and_build_def)
  show ?thesis
  proof (cases "price_exceeded P product (priceExpectation req)")
    case (Inl e)
    then show ?thesis using assms True cp by (simp add: validate_and_build_def)
  next
    case (Inr r)
    show ?thesis
    proof (cases r)
      case None
      then show ?thesis
        using assms True cp Inr
        by (simp add: validate_and_build_def Let_def split: sum.splits)
    next
      case (Some x)
      then show ?thesis
        using assms True cp Inr
        by (cases x) (auto simp: validate_and_build_def same_outcome_createErrorResponse)
    qed
  qed
qed

lemma current_catalog_idem:
  "current_catalog file (snd (prepare_order P env file req ctx pc)) = current_catalog file pc"
  by (simp add: prepare_order_def Let_def validateAsin_catalog current_catalog_def
      split: attempt.splits sum.splits option.splits)

lemma prepare_order_ctx:
  assumes "fst (prepare_order P env file req ctx pc) = Respond s b"
    and "current_catalog file pc' = current_catalog file pc"
  shows "\<exists>b'. fst (prepare_order P env file req ctx' pc') = Respond s b' \<and> same_outcome b b'"
proof (cases "verify_and_decode P env req ctx")
  case (Respond s0 b0)
  then have "s0 = s" "b0 = b" using assms(1) by (simp_all add: prepare_order_def)
  then show ?thesis
    using verify_and_decode_ctx [where P=P and env=env and req=req and ctx=ctx and ctx'=ctx'] Respond
    by (auto simp: prepare_order_def)
next
  case (Raise e)
  then show ?thesis using assms(1) by (simp add: prepare_order_def)
next
  case (Proceed product)
  then have vd': "verify_and_decode P env req ctx' = Proceed product"
    using verify_and_decode_ctx [where P=P and env=env and req=req and ctx=ctx and ctx'=ctx'] by simp
  show ?thesis
  proof (cases "get_prop (Some product) ''asin''")
    case (Inl e)
    then show ?thesis using assms(1) Proceed by (simp add: prepare_order_def)
  next
    case (Inr a)
    then have "validate_and_build P req ctx product (fst (validateAsin file pc a))
                 (current_catalog file pc) = Respond s b"
      using assms(1) Proceed by (simp add: prepare_order_def Let_def validateAsin_catalog)
    from validate_and_build_ctx [OF this, of ctx'] obtain b' where
      "validate_and_build P req ctx' product (fst (validateAsin file pc a))
                 (current_catalog file pc) = Respond s b'" "same_outcome b b'"
      by blast
    then show ?thesis
      using vd' Inr assms(2) validateAsin_same_catalog [OF assms(2), of a]
      by (simp add: prepare_order_def Let_def validateAsin_catalog)
  qed
qed

text \<open>
  C1, as stated, fails for a rejection that the handler returns from inside the
  \<open>try\<close> block: it is not stored, and the second submission of the same request, two
  seconds later, is answered with a new request id and a new time.
\<close>

theorem repeated_rejection_counterexample:
  "body (fst (purchase example_platform example_env None unlisted_request second_context
          (fst (snd (purchase example_platform example_env None unlisted_request first_context
                  initial_state)))))
    \<noteq> body (fst (purchase example_platform example_env None unlisted_request first_context
                  initial_state))"
proof -
  let ?run1 = "purchase example_platform example_env None unlisted_request first_context initial_state"
  let ?st1 = "fst (snd ?run1)"
  have nt: "\<not> truthy (fst (ledger_lookup unlisted_request first_context initial_state))"
    by (simp add: ledger_lookup_def checkIdempotency_def initial_state_def unlisted_basic)
  have p1: "fst (prepare_order example_platform example_env None unlisted_request first_context
          (productCatalog initial_state))
     = Respond 400 (createErrorResponse example_platform (t_received first_context) ''catalog.validate''
          ''ASIN_NOT_IN_CATALOG'' ''ASIN ZZZ_UNKNOWN is not in the approved product catalog''
          [(''requestId'', JStr (requestId_of first_context)),
           (''providedAsin'', JStr ''ZZZ_UNKNOWN''),
           (''suggestions'', JArr [JStr ''B08C7KG5LP'', JStr ''B01MTB55WH'']),
           (''availableAsins'', JArr [JStr ''B08C7KG5LP'', JStr ''B01MTB55WH''])])"
    by (simp add: prepare_unlisted' initial_state_def)
  have b1: "body (fst ?run1) = createErrorResponse example_platform (t_received first_context)
          ''catalog.validate''
          ''ASIN_NOT_IN_CATALOG'' ''ASIN ZZZ_UNKNOWN is not in the approved product catalog''
          [(''requestId'', JStr (requestId_of first_context)),
           (''providedAsin'', JStr ''ZZZ_UNKNOWN''),
           (''suggestions'', JArr [JStr ''B08C7KG5LP'', JStr ''B01MTB55WH'']),
           (''availableAsins'', JArr [JStr ''B08C7KG5LP'', JStr ''B01MTB55WH''])]"
    using purchase_Respond(1) [OF unlisted_basic(1) nt p1] by simp
  have c1: "idempotencyCache ?st1 = []"
    using purchase_Respond(2) [OF unlisted_basic(1) nt p1]
    by (simp add: ledger_lookup_def checkIdempotency_def initial_state_def unlisted_basic)
  have pc1: "productCatalog ?st1 = Some fallback_catalog"
    using purchase_Respond_state(1) [OF unlisted_basic(1) nt p1]
    by (simp add: prepare_unlisted' initial_state_def)
  have nt2: "\<not> truthy (fst (ledger_lookup unlisted_request second_context ?st1))"
    by (simp add: ledger_lookup_def checkIdempotency_def c1 unlisted_basic)
  have p2: "fst (prepare_order example_platform example_env None unlisted_request second_context
          (productCatalog ?st1))
     = Respond 400 (createErrorResponse example_platform (t_received second_context) ''catalog.validate''
          ''ASIN_NOT_IN_CATALOG'' ''ASIN ZZZ_UNKNOWN is not in the approved product catalog''
          [(''requestId'', JStr (requestId_of second_context)),
           (''providedAsin'', JStr ''ZZZ_UNKNOWN''),
           (''suggestions'', JArr [JStr ''B08C7KG5LP'', JStr ''B01MTB55WH'']),
           (''availableAsins'', JArr [JStr ''B08C7KG5LP'', JStr ''B01MTB55WH''])])"
    by (simp add: prepare_unlisted' pc1)
  have b2: "body (fst (purchase example_platform example_env None unlisted_request second_context ?st1))
     = createErrorResponse example_platform (t_received second_context) ''catalog.validate''
          ''ASIN_NOT_IN_CATALOG'' ''ASIN ZZZ_UNKNOWN is not in the approved product catalog''
          [(''requestId'', JStr (requestId_of second_context)),
           (''providedAsin'', JStr ''ZZZ_UNKNOWN''),
           (''suggestions'', JArr [JStr ''B08C7KG5LP'', JStr ''B01MTB55WH'']),
           (''availableAsins'', JArr [JStr ''B08C7KG5LP'', JStr ''B01MTB55WH''])]"
    using purchase_Respond(1) [OF unlisted_basic(1) nt2 p2] by simp
  show ?thesis
    by (simp add: b1 b2 createErrorResponse_def request_ids)
qed

text \<open>
  C1, amended. A request with both fields and an idempotency key that the ledger does
  not hold is submitted twice, the second time less than 3600000 ms after the first.
  The two runs send at most one order between them. When the first run ended in a
  confirmed order or in the \<open>catch\<close> block, the second response is the stored body of the
  first, with status 200. When the first run returned a rejection from inside the
  \<open>try\<close> block, the second response has the same status, stage, code and message.
\<close>

theorem second_submission:
  assumes "\<not> missing_fields req"
    and "truthy_str (idempotencyKey req)"
    and "map_of (idempotencyCache st) (the (idempotencyKey req)) = None"
    and "t_received ctx2 - t_received ctx1 < 3600000"
    and "t_received ctx2 - t_completed ctx1 < 3600000"
  shows "length (snd (snd (purchase P env file req ctx1 st))
            @ snd (snd (purchase P env file req ctx2 (fst (snd (purchase P env file req ctx1 st)))))) \<le> 1
    \<and> (case fst (prepare_order P env file req ctx1 (productCatalog st)) of
          Respond s b \<Rightarrow>
            fst (purchase P env file req ctx1 st) = \<lparr>status = s, body = b\<rparr>
            \<and> status (fst (purchase P env file req ctx2 (fst (snd (purchase P env file req ctx1 st))))) = s
            \<and> same_outcome b
                 (body (fst (purchase P env file req ctx2 (fst (snd (purchase P env file req ctx1 st))))))
        | _ \<Rightarrow>
            fst (purchase P env file req ctx2 (fst (snd (purchase P env file req ctx1 st))))
              = \<lparr>status = 200, body = body (fst (purchase P env file req ctx1 st))\<rparr>)"
proof -
  let ?run1 = "purchase P env file req ctx1 st"
  let ?st1 = "fst (snd ?run1)"
  let ?run2 = "purchase P env file req ctx2 ?st1"
  let ?key = "the (idempotencyKey req)"
  let ?prep = "prepare_order P env file req ctx1 (productCatalog st)"
  have ll1: "ledger_lookup req ctx1 st = (None, idempotencyCache st)"
    using assms(3) by (rule ledger_lookup_fresh)
  then have nt1: "\<not> truthy (fst (ledger_lookup req ctx1 st))" by simp
  have le1: "length (snd (snd ?run1)) \<le> 1" by (rule length_purchase_orders)
  show ?thesis
  proof (cases "\<exists>s b. fst ?prep = Respond s b")
    case True
    then obtain s b where sb: "fst ?prep = Respond s b" by blast
    have r1: "fst ?run1 = \<lparr>status = s, body = b\<rparr>"
      using assms(1) nt1 sb by (rule purchase_Respond(1))
    have c1: "idempotencyCache ?st1 = idempotencyCache st"
      using purchase_Respond(2) [OF assms(1) nt1 sb] ll1 by simp
    have pc1: "productCatalog ?st1 = snd ?prep"
      using assms(1) nt1 sb by (rule purchase_Respond_state(1))
    have o1: "snd (snd ?run1) = []"
      using assms(1) nt1 sb by (rule purchase_Respond_state(2))
    have "ledger_lookup req ctx2 ?st1 = (None, idempotencyCache ?st1)"
      using assms(3) c1 by (simp add: ledger_lookup_fresh)
    then have nt2: "\<not> truthy (fst (ledger_lookup req ctx2 ?st1))" by simp
    have "current_catalog file (productCatalog ?st1) = current_catalog file (productCatalog st)"
      by (simp add: pc1 current_catalog_idem)
    from prepare_order_ctx [OF sb this, of ctx2] obtain b' where
      b': "fst (prepare_order P env file req ctx2 (productCatalog ?st1)) = Respond s b'"
        "same_outcome b b'"
      by blast
    have r2: "fst ?run2 = \<lparr>status = s, body = b'\<rparr>"
      using assms(1) nt2 b'(1) by (rule purchase_Respond(1))
    have o2: "snd (snd ?run2) = []"
      using assms(1) nt2 b'(1) by (rule purchase_Respond_state(2))
    show ?thesis using sb r1 r2 o1 o2 b'(2) by simp
  next
    case False
    then have nr: "\<forall>s b. fst ?prep \<noteq> Respond s b" by blast
    from purchase_stores [OF assms(1,2) nt1 nr] obtain t where
      t: "t = t_received ctx1 \<or> t = t_completed ctx1"
      and stored: "map_of (idempotencyCache ?st1) ?key = Some \<lparr>result = body (fst ?run1), timestamp = t\<rparr>"
      and isobj: "is_JObj (body (fst ?run1))"
      by blast
    have "t_received ctx2 - t < 3600000" using t assms(4,5) by auto
    with assms(2) stored have ll2: "ledger_lookup req ctx2 ?st1 = (Some (body (fst ?run1)), idempotencyCache ?st1)"
      by (rule ledger_lookup_live)
    then have "truthy (fst (ledger_lookup req ctx2 ?st1))"
      using isobj by (simp add: truthy_JObj)
    from purchase_replay [OF assms(1) this, of P env "file"]
    have "?run2 = (\<lparr>status = 200, body = body (fst ?run1)\<rparr>,
        ?st1\<lparr>idempotencyCache := idempotencyCache ?st1\<rparr>, [])"
      using ll2 by simp
    then have "fst ?run2 = \<lparr>status = 200, body = body (fst ?run1)\<rparr>" "snd (snd ?run2) = []"
      by simp_all
    then show ?thesis
      using le1 nr by (cases "fst ?prep") simp_all
  qed
qed

theorem second_submission_witness:
  "length (snd (snd (purchase example_platform example_env None example_request first_context initial_state))
      @ snd (snd (purchase example_platform example_env None example_request second_context
          (fst (snd (purchase example_platform example_env None example_request first_context
                  initial_state)))))) \<le> 1
   \<and> fst (purchase example_platform example_env None example_request second_context
                 (fst (snd (purchase example_platform example_env None example_request first_context
                  initial_state))))
        = \<lparr>status = 200,
           body = body (fst (purchase example_platform example_env None example_request
                                first_context initial_state))\<rparr>"
proof -
  have a3: "map_of (idempotencyCache initial_state) (the (idempotencyKey example_request)) = None"
    by (simp add: initial_state_def)
  have a4: "t_received second_context - t_received first_context < 3600000"
    by (simp add: first_context_def second_context_def)
  have a5: "t_received second_context - t_completed first_context < 3600000"
    by (simp add: first_context_def second_context_def)
  obtain po where "fst (prepare_order example_platform example_env None example_request
       first_context (productCatalog initial_state)) = Proceed po"
    using prepare_airpods [of first_context] by (auto simp: initial_state_def)
  then show ?thesis
    using second_submission [OF example_basic(1) example_basic(2) a3 a4 a5,
        of example_platform example_env None]
    by simp
qed

end
